theory Spec2Isabelle
  imports Complex_Main "HOL-Library.Sublist" "HOL-Library.Multiset"
begin

unbundle bit_operations_syntax

section \<open>Conventions of the embedding\<close>

text \<open>
  The development embeds the matching engine of the HR talent system
  (\<^verbatim>\<open>utils.py\<close>, \<^verbatim>\<open>vector_store.py\<close>, \<^verbatim>\<open>db.py\<close>, \<^verbatim>\<open>match.py\<close>).

  \<^item> A Python \<^verbatim>\<open>str\<close> is a \<open>string\<close>; the characters are those of the ASCII range, on
    which \<^verbatim>\<open>str.lower\<close> maps \<open>A..Z\<close> to \<open>a..z\<close> and changes nothing else.
  \<^item> A Python \<^verbatim>\<open>float\<close> is an exact rational (\<open>rat\<close>): the sums, products and
    quotients are the mathematical ones, and \<^verbatim>\<open>round(x, 2)\<close> rounds to the nearest
    multiple of \<open>1/100\<close>, a tie going to the even neighbour.
  \<^item> A Python exception is a value \<open>Inl e\<close> of a sum type.
  \<^item> The SQLite tables are lists of rows, in insertion order; the ChromaDB collections
    are lists of entries.
\<close>

datatype py_error = ZeroDivisionError | ValueError

section \<open>Strings\<close>

text \<open>\<^verbatim>\<open>str.lower\<close> on one character and on a string.\<close>

definition char_lower :: "char \<Rightarrow> char" where
  "char_lower c =
     (let n = (of_char c :: nat) in if 65 \<le> n \<and> n \<le> 90 then char_of (n + 32) else c)"

definition lower :: "string \<Rightarrow> string" where
  "lower s = map char_lower s"

text \<open>Python's \<^verbatim>\<open>x in y\<close> on strings: \<open>x\<close> occurs in \<open>y\<close> as a contiguous block.\<close>

fun str_in :: "string \<Rightarrow> string \<Rightarrow> bool" where
  "str_in x [] = (x = [])"
| "str_in x (c # cs) = (prefix x (c # cs) \<or> str_in x cs)"

text \<open>\<^verbatim>\<open>sep.join(xs)\<close>.\<close>

fun join :: "string \<Rightarrow> string list \<Rightarrow> string" where
  "join sep [] = []"
| "join sep [x] = x"
| "join sep (x # y # ys) = x @ sep @ join sep (y # ys)"

section \<open>Rounding\<close>

text \<open>\<^verbatim>\<open>round(q)\<close> to an integer, ties to even, and \<^verbatim>\<open>round(q, 2)\<close>.\<close>

definition round_half_even :: "rat \<Rightarrow> int" where
  "round_half_even q =
     (let f = \<lfloor>q\<rfloor>; r = q - of_int f
      in if r < 1 / 2 then f else if 1 / 2 < r then f + 1 else if even f then f else f + 1)"

definition py_round2 :: "rat \<Rightarrow> rat" where
  "py_round2 q = of_int (round_half_even (q * 100)) / 100"

section \<open>Skill analysis (\<^verbatim>\<open>utils.py\<close>, class \<^verbatim>\<open>SkillAnalyzer\<close>)\<close>

text \<open>
  The test of \<^verbatim>\<open>find_skill_gaps\<close> and \<^verbatim>\<open>recommend_courses\<close>:
  \<^verbatim>\<open>any(x_lower in s or s in x_lower for s in skills_lower)\<close>.
\<close>

definition fuzzy_any :: "string \<Rightarrow> string list \<Rightarrow> bool" where
  "fuzzy_any x_lower skills_lower = list_ex (\<lambda>s. str_in x_lower s \<or> str_in s x_lower) skills_lower"

record skill_gap =
  missing_skills :: "string list"
  matched_skills :: "string list"
  match_percentage :: rat

text \<open>The loop of \<^verbatim>\<open>find_skill_gaps\<close> that appends to \<^verbatim>\<open>missing_skills\<close>.\<close>

fun collect_missing :: "string list \<Rightarrow> string list \<Rightarrow> string list \<Rightarrow> string list" where
  "collect_missing employee_skills_lower [] missing = missing"
| "collect_missing employee_skills_lower (required_skill # rest) missing =
     collect_missing employee_skills_lower rest
       (if \<not> fuzzy_any (lower required_skill) employee_skills_lower
        then missing @ [required_skill] else missing)"

definition find_skill_gaps :: "string list \<Rightarrow> string list \<Rightarrow> skill_gap" where
  "find_skill_gaps employee_skills required_skills =
     (let employee_skills_lower = map lower employee_skills;
          missing = collect_missing employee_skills_lower required_skills []
      in \<lparr> missing_skills = missing,
           matched_skills = filter (\<lambda>skill. skill \<notin> set missing) required_skills,
           match_percentage =
             (if required_skills \<noteq> []
              then py_round2
                     (of_int (int (length required_skills) - int (length missing))
                        / of_int (int (length required_skills)) * 100)
              else 0) \<rparr>)"

section \<open>Score combination (\<^verbatim>\<open>match.py\<close>, \<^verbatim>\<open>_calculate_overall_score\<close>)\<close>

definition calculate_overall_score :: "rat \<Rightarrow> rat \<Rightarrow> rat" where
  "calculate_overall_score similarity_score skill_match_percentage =
     py_round2 (6 / 10 * similarity_score + 4 / 10 * skill_match_percentage)"

text \<open>
  \<^verbatim>\<open>categorize_skills\<close>: the categories in the order of the dictionary literal, each with
  its keywords; a skill goes to the first category one of whose keywords occurs in the
  lowercased skill, and to \<^verbatim>\<open>other\<close> when there is none. The result dictionary is an
  association list in insertion order.
\<close>

definition skill_categories :: "(string \<times> string list) list" where
  "skill_categories =
     [(''programming'', [''python'', ''java'', ''javascript'', ''typescript'', ''c++'', ''c#'', ''go'', ''rust'']),
      (''web_development'', [''react'', ''angular'', ''vue'', ''html'', ''css'', ''node.js'', ''express'']),
      (''data_science'', [''python'', ''r'', ''sql'', ''pandas'', ''numpy'', ''tensorflow'', ''pytorch'', ''scikit-learn'']),
      (''cloud_devops'', [''aws'', ''azure'', ''gcp'', ''docker'', ''kubernetes'', ''terraform'', ''jenkins'']),
      (''databases'', [''mysql'', ''postgresql'', ''mongodb'', ''redis'', ''elasticsearch'', ''sqlite'']),
      (''mobile'', [''swift'', ''kotlin'', ''react native'', ''flutter'', ''ios'', ''android'']),
      (''ai_ml'', [''machine learning'', ''deep learning'', ''nlp'', ''computer vision'', ''tensorflow'', ''pytorch''])]"

definition append_to :: "string \<Rightarrow> string \<Rightarrow> (string \<times> string list) list \<Rightarrow> (string \<times> string list) list" where
  "append_to key v categorized = map (\<lambda>(k, vs). if k = key then (k, vs @ [v]) else (k, vs)) categorized"

definition categorize_skill :: "(string \<times> string list) list \<Rightarrow> string \<Rightarrow> (string \<times> string list) list" where
  "categorize_skill categorized skill =
     (let skill_lower = lower skill
      in case find (\<lambda>(category, category_skills).
                      list_ex (\<lambda>cat_skill. str_in cat_skill skill_lower) category_skills)
                skill_categories of
           Some (category, category_skills) \<Rightarrow> append_to category skill categorized
         | None \<Rightarrow> append_to ''other'' skill categorized)"

definition categorize_skills :: "string list \<Rightarrow> (string \<times> string list) list" where
  "categorize_skills skills =
     foldl categorize_skill
       (map (\<lambda>(category, category_skills). (category, [])) skill_categories @ [(''other'', [])])
       skills"

text \<open>
  \<^verbatim>\<open>recommend_courses\<close>. A course is the dictionary built by
  \<^verbatim>\<open>_get_recommended_courses\<close>; \<^verbatim>\<open>course.get('skill_tags', [])\<close> reads a key that may
  be absent. A recommendation is the course with its two added keys.
\<close>

record course_dict =
  cd_id :: int
  cd_title :: string
  cd_skill_tags :: "string list option"
  cd_provider :: string
  cd_url :: string
  cd_description :: string

record recommendation =
  rec_course :: course_dict
  relevance_score :: nat
  relevance_percentage :: rat

definition course_skills :: "course_dict \<Rightarrow> string list" where
  "course_skills course = (case cd_skill_tags course of None \<Rightarrow> [] | Some tags \<Rightarrow> tags)"

text \<open>The inner loop over the missing skills, counting into \<^verbatim>\<open>relevance_score\<close>.\<close>

fun count_relevant :: "string list \<Rightarrow> string list \<Rightarrow> nat \<Rightarrow> nat" where
  "count_relevant course_skills_lower [] relevance = relevance"
| "count_relevant course_skills_lower (missing_skill # rest) relevance =
     count_relevant course_skills_lower rest
       (if fuzzy_any (lower missing_skill) course_skills_lower then relevance + 1 else relevance)"

text \<open>
  The outer loop over the courses. The quotient \<^verbatim>\<open>relevance_score / len(missing_skills)\<close>
  raises \<^verbatim>\<open>ZeroDivisionError\<close> when the list of missing skills is empty.
\<close>

fun recommend_loop ::
  "string list \<Rightarrow> course_dict list \<Rightarrow> recommendation list \<Rightarrow> py_error + recommendation list" where
  "recommend_loop missing [] recommendations = Inr recommendations"
| "recommend_loop missing (course # rest) recommendations =
     (let course_skills_lower = map lower (course_skills course);
          relevance = count_relevant course_skills_lower missing 0
      in if 0 < relevance
         then (if length missing = 0 then Inl ZeroDivisionError
               else recommend_loop missing rest
                      (recommendations @
                       [\<lparr> rec_course = course, relevance_score = relevance,
                          relevance_percentage =
                            py_round2 (of_nat relevance / of_nat (length missing) * 100) \<rparr>]))
         else recommend_loop missing rest recommendations)"

text \<open>
  \<^verbatim>\<open>recommendations.sort(key=..., reverse=True)\<close> is a stable sort in descending order of
  the key, that is a stable ascending sort on the negated key; then the slice \<^verbatim>\<open>[:3]\<close>.
\<close>

definition recommend_courses ::
  "string list \<Rightarrow> course_dict list \<Rightarrow> py_error + recommendation list" where
  "recommend_courses missing available_courses =
     (case recommend_loop missing available_courses [] of
        Inl e \<Rightarrow> Inl e
      | Inr recommendations \<Rightarrow>
          Inr (take 3 (sort_key (\<lambda>x. - int (relevance_score x)) recommendations)))"

text \<open>
  The relevance of a course and its recommendation in the words of the specification:
  the number of missing skills that match one of the course's tags by substring containment
  in either direction, ignoring case.
\<close>

definition spec_relevance :: "string list \<Rightarrow> course_dict \<Rightarrow> nat" where
  "spec_relevance missing course =
     length (filter (\<lambda>m. \<exists>t \<in> set (course_skills course).
                            sublist (lower m) (lower t) \<or> sublist (lower t) (lower m)) missing)"

definition spec_recommendation :: "string list \<Rightarrow> course_dict \<Rightarrow> recommendation" where
  "spec_recommendation missing course =
     \<lparr> rec_course = course, relevance_score = spec_relevance missing course,
       relevance_percentage =
         py_round2 (of_nat (spec_relevance missing course) / of_nat (length missing) * 100) \<rparr>"

section \<open>Embedding generation (\<^verbatim>\<open>vector_store.py\<close>, \<^verbatim>\<open>generate_embedding\<close>)\<close>

subsection \<open>\<^verbatim>\<open>hashlib.md5\<close>\<close>

text \<open>
  The MD5 message digest of RFC 1321, which \<^verbatim>\<open>hashlib.md5(text.encode()).hexdigest()\<close>
  computes. A byte is an integer in \<open>[0, 256)\<close> and a 32-bit word an integer in
  \<open>[0, 2^32)\<close>; the additions wrap around modulo \<open>2^32 = 4294967296\<close>. The string is the
  UTF-8 encoding of the text, one character a byte.
\<close>

type_synonym byte = int
type_synonym word32 = int
type_synonym md5_state = "word32 \<times> word32 \<times> word32 \<times> word32"

definition md5_s :: "nat list" where
  "md5_s = [7, 12, 17, 22, 7, 12, 17, 22, 7, 12, 17, 22, 7, 12, 17, 22,
            5, 9, 14, 20, 5, 9, 14, 20, 5, 9, 14, 20, 5, 9, 14, 20,
            4, 11, 16, 23, 4, 11, 16, 23, 4, 11, 16, 23, 4, 11, 16, 23,
            6, 10, 15, 21, 6, 10, 15, 21, 6, 10, 15, 21, 6, 10, 15, 21]"

definition md5_K :: "word32 list" where
  "md5_K =
    [0xd76aa478, 0xe8c7b756, 0x242070db, 0xc1bdceee,
     0xf57c0faf, 0x4787c62a, 0xa8304613, 0xfd469501,
     0x698098d8, 0x8b44f7af, 0xffff5bb1, 0x895cd7be,
     0x6b901122, 0xfd987193, 0xa679438e, 0x49b40821,
     0xf61e2562, 0xc040b340, 0x265e5a51, 0xe9b6c7aa,
     0xd62f105d, 0x02441453, 0xd8a1e681, 0xe7d3fbc8,
     0x21e1cde6, 0xc33707d6, 0xf4d50d87, 0x455a14ed,
     0xa9e3e905, 0xfcefa3f8, 0x676f02d9, 0x8d2a4c8a,
     0xfffa3942, 0x8771f681, 0x6d9d6122, 0xfde5380c,
     0xa4beea44, 0x4bdecfa9, 0xf6bb4b60, 0xbebfbc70,
     0x289b7ec6, 0xeaa127fa, 0xd4ef3085, 0x04881d05,
     0xd9d4d039, 0xe6db99e5, 0x1fa27cf8, 0xc4ac5665,
     0xf4292244, 0x432aff97, 0xab9423a7, 0xfc93a039,
     0x655b59c3, 0x8f0ccc92, 0xffeff47d, 0x85845dd1,
     0x6fa87e4f, 0xfe2ce6e0, 0xa3014314, 0x4e0811a1,
     0xf7537e82, 0xbd3af235, 0x2ad7d2bb, 0xeb86d391]"

definition add32 :: "word32 \<Rightarrow> word32 \<Rightarrow> word32" where
  "add32 x y = (x + y) mod 4294967296"

definition not32 :: "word32 \<Rightarrow> word32" where
  "not32 x = 4294967295 - x"

definition rotl32 :: "word32 \<Rightarrow> nat \<Rightarrow> word32" where
  "rotl32 x n = (x * 2 ^ n) mod 4294967296 + x div 2 ^ (32 - n)"

definition encode :: "string \<Rightarrow> byte list" where
  "encode text = map of_char text"

fun le_bytes :: "nat \<Rightarrow> int \<Rightarrow> byte list" where
  "le_bytes 0 v = []"
| "le_bytes (Suc n) v = v mod 256 # le_bytes n (v div 256)"

definition le_word :: "byte list \<Rightarrow> word32" where
  "le_word bs = foldr (\<lambda>b acc. b + 256 * acc) bs 0"

fun chunk_list :: "nat \<Rightarrow> nat \<Rightarrow> 'a list \<Rightarrow> 'a list list" where
  "chunk_list n 0 xs = []"
| "chunk_list n (Suc k) xs = take n xs # chunk_list n k (drop n xs)"

definition md5_pad :: "byte list \<Rightarrow> byte list" where
  "md5_pad msg =
     msg @ [128] @ replicate ((119 - length msg mod 64) mod 64) 0
       @ le_bytes 8 ((8 * int (length msg)) mod 18446744073709551616)"

fun md5_step :: "word32 list \<Rightarrow> md5_state \<Rightarrow> nat \<Rightarrow> md5_state" where
  "md5_step M (a, b, c, d) i =
     (let (f, g) =
            (if i < 16 then ((b AND c) OR (not32 b AND d), i)
             else if i < 32 then ((d AND b) OR (not32 d AND c), (5 * i + 1) mod 16)
             else if i < 48 then (b XOR c XOR d, (3 * i + 5) mod 16)
             else (c XOR (b OR not32 d), (7 * i) mod 16));
          f' = add32 (add32 (add32 f a) (md5_K ! i)) (M ! g)
      in (d, add32 b (rotl32 f' (md5_s ! i)), b, c))"

fun md5_block :: "md5_state \<Rightarrow> byte list \<Rightarrow> md5_state" where
  "md5_block (a0, b0, c0, d0) block =
     (let M = map le_word (chunk_list 4 16 block);
          (a, b, c, d) = foldl (md5_step M) (a0, b0, c0, d0) [0..<64]
      in (add32 a0 a, add32 b0 b, add32 c0 c, add32 d0 d))"

definition md5_init :: md5_state where
  "md5_init = (0x67452301, 0xefcdab89, 0x98badcfe, 0x10325476)"

definition md5_digest :: "byte list \<Rightarrow> byte list" where
  "md5_digest msg =
     (let padded = md5_pad msg;
          (a, b, c, d) = foldl md5_block md5_init (chunk_list 64 (length padded div 64) padded)
      in concat (map (le_bytes 4) [a, b, c, d]))"

definition hex_digit :: "int \<Rightarrow> char" where
  "hex_digit n = ''0123456789abcdef'' ! nat n"

definition hexdigest :: "byte list \<Rightarrow> string" where
  "hexdigest bs = concat (map (\<lambda>b. [hex_digit (b div 16), hex_digit (b mod 16)]) bs)"

definition md5_hexdigest :: "string \<Rightarrow> string" where
  "md5_hexdigest text = hexdigest (md5_digest (encode text))"

subsection \<open>The embedding\<close>

text \<open>
  \<^verbatim>\<open>int(hex_pair, 16)\<close> on a string of hexadecimal digits; any other character raises
  \<^verbatim>\<open>ValueError\<close>, and so does the empty string.
\<close>

definition hex_value :: "char \<Rightarrow> int option" where
  "hex_value c =
     (let n = (of_char c :: int)
      in if 48 \<le> n \<and> n \<le> 57 then Some (n - 48)
         else if 97 \<le> n \<and> n \<le> 102 then Some (n - 87)
         else if 65 \<le> n \<and> n \<le> 70 then Some (n - 55)
         else None)"

fun int16_digits :: "string \<Rightarrow> int \<Rightarrow> py_error + int" where
  "int16_digits [] acc = Inr acc"
| "int16_digits (c # cs) acc =
     (case hex_value c of None \<Rightarrow> Inl ValueError | Some v \<Rightarrow> int16_digits cs (16 * acc + v))"

definition py_int16 :: "string \<Rightarrow> py_error + int" where
  "py_int16 s = (if s = [] then Inl ValueError else int16_digits s 0)"

type_synonym embedding = "rat list"

text \<open>
  The loop \<^verbatim>\<open>for i in range(0, len(text_hash), 2)\<close> over the slices
  \<^verbatim>\<open>text_hash[i:i+2]\<close>, appending \<^verbatim>\<open>int(hex_pair, 16) / 255.0\<close>.
\<close>

fun hex_pairs_loop :: "string \<Rightarrow> embedding \<Rightarrow> py_error + embedding" where
  "hex_pairs_loop [] embedding = Inr embedding"
| "hex_pairs_loop [c] embedding =
     (case py_int16 [c] of
        Inl e \<Rightarrow> Inl e
      | Inr v \<Rightarrow> Inr (embedding @ [of_int v / 255]))"
| "hex_pairs_loop (c1 # c2 # rest) embedding =
     (case py_int16 [c1, c2] of
        Inl e \<Rightarrow> Inl e
      | Inr v \<Rightarrow> hex_pairs_loop rest (embedding @ [of_int v / 255]))"

text \<open>The loop \<^verbatim>\<open>while len(embedding) < 384: embedding.append(0.0)\<close>.\<close>

function pad_embedding :: "embedding \<Rightarrow> embedding" where
  "pad_embedding embedding =
     (if length embedding < 384 then pad_embedding (embedding @ [0]) else embedding)"
  by pat_completeness auto
termination
  by (relation "measure (\<lambda>embedding. 384 - length embedding)") auto

declare pad_embedding.simps [simp del]

definition generate_embedding :: "string \<Rightarrow> py_error + embedding" where
  "generate_embedding text =
     (case hex_pairs_loop (md5_hexdigest text) [] of
        Inl e \<Rightarrow> Inl e
      | Inr embedding \<Rightarrow> Inr (take 384 (pad_embedding embedding)))"

section \<open>The record store (\<^verbatim>\<open>db.py\<close>)\<close>

text \<open>
  The rows the \<^verbatim>\<open>DatabaseManager\<close> reads back as \<^verbatim>\<open>Employee\<close>,
  \<^verbatim>\<open>Project\<close> and \<^verbatim>\<open>Course\<close> objects, and the rows of \<^verbatim>\<open>match_history\<close>. A JSON column
  is the list it encodes; the nullable \<^verbatim>\<open>embedding_vector\<close> column is an option.
\<close>

record employee =
  emp_id :: int
  emp_name :: string
  emp_skills :: "string list"
  emp_preferences :: "string list"
  emp_resume_text :: string
  emp_embedding_vector :: "embedding option"

record project =
  proj_id :: int
  proj_title :: string
  proj_required_skills :: "string list"
  proj_team_size :: int
  proj_description :: string
  proj_embedding_vector :: "embedding option"

record course =
  course_id :: int
  course_title :: string
  course_skill_tags :: "string list"
  course_provider :: string
  course_url :: string
  course_description :: string

record match_row =
  mh_id :: int
  mh_employee_id :: int
  mh_project_id :: int
  mh_match_score :: rat
  mh_missing_skills :: "string list"
  mh_matched_skills :: "string list"
  mh_skill_match_percentage :: rat
  mh_overall_score :: rat
  mh_timestamp :: nat

text \<open>
  The four tables, and the counter behind \<^verbatim>\<open>AUTOINCREMENT\<close> for \<^verbatim>\<open>match_history\<close>
  (the largest id handed out so far).
\<close>

record database =
  employees :: "employee list"
  projects :: "project list"
  courses :: "course list"
  match_history :: "match_row list"
  match_history_seq :: int

text \<open>\<^verbatim>\<open>init_database\<close> on a fresh file: the tables exist and are empty.\<close>

definition init_database :: database where
  "init_database = \<lparr> employees = [], projects = [], courses = [], match_history = [],
                      match_history_seq = 0 \<rparr>"

definition get_employee :: "database \<Rightarrow> int \<Rightarrow> employee option" where
  "get_employee db employee_id = find (\<lambda>e. emp_id e = employee_id) (employees db)"

definition get_all_projects :: "database \<Rightarrow> project list" where
  "get_all_projects db = projects db"

definition get_all_courses :: "database \<Rightarrow> course list" where
  "get_all_courses db = courses db"

definition db_update_employee_embedding :: "database \<Rightarrow> int \<Rightarrow> embedding \<Rightarrow> database" where
  "db_update_employee_embedding db employee_id embedding =
     db\<lparr> employees :=
           map (\<lambda>e. if emp_id e = employee_id then e\<lparr> emp_embedding_vector := Some embedding \<rparr> else e)
             (employees db) \<rparr>"

definition db_update_project_embedding :: "database \<Rightarrow> int \<Rightarrow> embedding \<Rightarrow> database" where
  "db_update_project_embedding db project_id embedding =
     db\<lparr> projects :=
           map (\<lambda>p. if proj_id p = project_id then p\<lparr> proj_embedding_vector := Some embedding \<rparr> else p)
             (projects db) \<rparr>"

text \<open>The condition \<^verbatim>\<open>WHERE employee_id = ? AND project_id = ?\<close>.\<close>

definition same_pair :: "int \<Rightarrow> int \<Rightarrow> match_row \<Rightarrow> bool" where
  "same_pair employee_id project_id r \<longleftrightarrow>
     mh_employee_id r = employee_id \<and> mh_project_id r = project_id"

text \<open>The \<^verbatim>\<open>SET\<close> clause of the \<^verbatim>\<open>UPDATE\<close> in \<^verbatim>\<open>add_match_history\<close>.\<close>

definition set_match ::
  "nat \<Rightarrow> rat \<Rightarrow> string list \<Rightarrow> string list \<Rightarrow> rat \<Rightarrow> rat \<Rightarrow> match_row \<Rightarrow> match_row" where
  "set_match now match_score missing matched skill_match_pct overall r =
     r\<lparr> mh_match_score := match_score,
        mh_missing_skills := missing,
        mh_matched_skills := matched,
        mh_skill_match_percentage := skill_match_pct,
        mh_overall_score := overall,
        mh_timestamp := now \<rparr>"

text \<open>
  \<^verbatim>\<open>add_match_history\<close>; \<open>now\<close> is the value of \<^verbatim>\<open>CURRENT_TIMESTAMP\<close> at the call. The
  result is the returned \<^verbatim>\<open>match_id\<close> and the database after the commit.
\<close>

definition add_match_history ::
  "database \<Rightarrow> nat \<Rightarrow> int \<Rightarrow> int \<Rightarrow> rat \<Rightarrow> string list \<Rightarrow> string list \<Rightarrow> rat \<Rightarrow> rat
     \<Rightarrow> int \<times> database" where
  "add_match_history db now employee_id project_id match_score missing matched
       skill_match_pct overall =
     (case find (same_pair employee_id project_id) (match_history db) of
        Some existing_match \<Rightarrow>
          (mh_id existing_match,
           db\<lparr> match_history :=
                 map (\<lambda>r. if same_pair employee_id project_id r
                           then set_match now match_score missing matched skill_match_pct overall r
                           else r)
                   (match_history db) \<rparr>)
      | None \<Rightarrow>
          (let match_id = match_history_seq db + 1
           in (match_id,
               db\<lparr> match_history :=
                     match_history db @
                     [\<lparr> mh_id = match_id, mh_employee_id = employee_id,
                        mh_project_id = project_id, mh_match_score = match_score,
                        mh_missing_skills = missing, mh_matched_skills = matched,
                        mh_skill_match_percentage = skill_match_pct,
                        mh_overall_score = overall, mh_timestamp = now \<rparr>],
                   match_history_seq := match_id \<rparr>)))"

text \<open>The key of a match record, and the invariant that no two rows share it.\<close>

definition pair_key :: "match_row \<Rightarrow> int \<times> int" where
  "pair_key r = (mh_employee_id r, mh_project_id r)"

definition unique_pairs :: "database \<Rightarrow> bool" where
  "unique_pairs db \<longleftrightarrow> distinct (map pair_key (match_history db))"

text \<open>The row a call of \<^verbatim>\<open>add_match_history\<close> leaves for its pair.\<close>

definition stored_row ::
  "int \<Rightarrow> nat \<Rightarrow> int \<Rightarrow> int \<Rightarrow> rat \<Rightarrow> string list \<Rightarrow> string list \<Rightarrow> rat \<Rightarrow> rat \<Rightarrow> match_row" where
  "stored_row i now e p s miss mat pct ov =
     \<lparr> mh_id = i, mh_employee_id = e, mh_project_id = p, mh_match_score = s,
       mh_missing_skills = miss, mh_matched_skills = mat, mh_skill_match_percentage = pct,
       mh_overall_score = ov, mh_timestamp = now \<rparr>"

section \<open>The similarity index (\<^verbatim>\<open>vector_store.py\<close>)\<close>

text \<open>
  An entry of a ChromaDB collection: the id, the embedding, the document and the metadata
  (the name or title, and the skills). The store holds the two collections.
\<close>

record index_entry =
  entry_id :: int
  entry_embedding :: embedding
  entry_document :: string
  entry_name :: string
  entry_skills :: "string list"

record vector_store =
  employees_collection :: "index_entry list"
  projects_collection :: "index_entry list"

definition add_employee_embedding ::
  "vector_store \<Rightarrow> int \<Rightarrow> string \<Rightarrow> string list \<Rightarrow> string \<Rightarrow> embedding \<Rightarrow> vector_store" where
  "add_employee_embedding store employee_id name skills resume_text embedding =
     store\<lparr> employees_collection :=
              employees_collection store @
              [\<lparr> entry_id = employee_id, entry_embedding = embedding,
                 entry_document = name @ '' Skills: '' @ join '', '' skills @ '' Resume: '' @ resume_text,
                 entry_name = name, entry_skills = skills \<rparr>] \<rparr>"

definition add_project_embedding ::
  "vector_store \<Rightarrow> int \<Rightarrow> string \<Rightarrow> string list \<Rightarrow> string \<Rightarrow> embedding \<Rightarrow> vector_store" where
  "add_project_embedding store project_id title required_skills description embedding =
     store\<lparr> projects_collection :=
              projects_collection store @
              [\<lparr> entry_id = project_id, entry_embedding = embedding,
                 entry_document = title @ '' Required Skills: '' @ join '', '' required_skills
                                    @ '' Description: '' @ description,
                 entry_name = title, entry_skills = required_skills \<rparr>] \<rparr>"

text \<open>\<^verbatim>\<open>update_employee_embedding\<close> and \<^verbatim>\<open>update_project_embedding\<close>: delete, then add.\<close>

definition vs_update_employee_embedding ::
  "vector_store \<Rightarrow> int \<Rightarrow> string \<Rightarrow> string list \<Rightarrow> string \<Rightarrow> embedding \<Rightarrow> vector_store" where
  "vs_update_employee_embedding store employee_id name skills resume_text embedding =
     add_employee_embedding
       (store\<lparr> employees_collection :=
                 filter (\<lambda>e. entry_id e \<noteq> employee_id) (employees_collection store) \<rparr>)
       employee_id name skills resume_text embedding"

definition vs_update_project_embedding ::
  "vector_store \<Rightarrow> int \<Rightarrow> string \<Rightarrow> string list \<Rightarrow> string \<Rightarrow> embedding \<Rightarrow> vector_store" where
  "vs_update_project_embedding store project_id title required_skills description embedding =
     add_project_embedding
       (store\<lparr> projects_collection :=
                 filter (\<lambda>e. entry_id e \<noteq> project_id) (projects_collection store) \<rparr>)
       project_id title required_skills description embedding"

text \<open>
  Modelled from the spec: the query of a ChromaDB collection,
  \<^verbatim>\<open>collection.query(query_embeddings=[v], n_results=k)\<close>, which is library code. By
  section 4.2 of the specification it returns up to \<open>k\<close> entries ranked by ascending cosine
  distance to \<open>v\<close>, ties in insertion order, fewer when the collection is smaller, and the
  empty list for an empty collection. The cosine distance is the parameter \<open>cosine\<close>.
\<close>

definition collection_query ::
  "(embedding \<Rightarrow> embedding \<Rightarrow> rat) \<Rightarrow> index_entry list \<Rightarrow> embedding \<Rightarrow> nat
     \<Rightarrow> (index_entry \<times> rat) list" where
  "collection_query cosine collection v k =
     take k (sort_key snd (map (\<lambda>e. (e, cosine v (entry_embedding e))) collection))"

text \<open>
  An element of the list \<^verbatim>\<open>find_similar_projects\<close> or \<^verbatim>\<open>find_similar_employees\<close>
  returns: the id, the name or title, the skills, the similarity score and the document.
\<close>

record similar =
  sim_id :: int
  sim_name :: string
  sim_skills :: "string list"
  sim_similarity_score :: rat
  sim_document :: string

definition similar_of :: "index_entry \<times> rat \<Rightarrow> similar" where
  "similar_of r =
     (case r of (entry, distance) \<Rightarrow>
        \<lparr> sim_id = entry_id entry, sim_name = entry_name entry, sim_skills = entry_skills entry,
          sim_similarity_score = py_round2 ((1 - distance) * 100),
          sim_document = entry_document entry \<rparr>)"

definition find_similar_projects ::
  "(embedding \<Rightarrow> embedding \<Rightarrow> rat) \<Rightarrow> vector_store \<Rightarrow> embedding \<Rightarrow> nat \<Rightarrow> similar list" where
  "find_similar_projects cosine store employee_embedding top_k =
     map similar_of (collection_query cosine (projects_collection store) employee_embedding top_k)"

definition find_similar_employees ::
  "(embedding \<Rightarrow> embedding \<Rightarrow> rat) \<Rightarrow> vector_store \<Rightarrow> embedding \<Rightarrow> nat \<Rightarrow> similar list" where
  "find_similar_employees cosine store project_embedding top_k =
     map similar_of (collection_query cosine (employees_collection store) project_embedding top_k)"

section \<open>The match orchestrator (\<^verbatim>\<open>match.py\<close>, class \<^verbatim>\<open>TalentMatcher\<close>)\<close>

text \<open>The state the matcher works on: the record store and the similarity index.\<close>

record system =
  sys_db :: database
  sys_vs :: vector_store

text \<open>The enriched matches of the two directions.\<close>

record project_match =
  pm_project_id :: int
  pm_title :: string
  pm_description :: string
  pm_team_size :: int
  pm_required_skills :: "string list"
  pm_similarity_score :: rat
  pm_skill_match_percentage :: rat
  pm_matched_skills :: "string list"
  pm_missing_skills :: "string list"
  pm_overall_score :: rat

record employee_match =
  em_employee_id :: int
  em_name :: string
  em_skills :: "string list"
  em_preferences :: "string list"
  em_similarity_score :: rat
  em_skill_match_percentage :: rat
  em_matched_skills :: "string list"
  em_missing_skills :: "string list"
  em_overall_score :: rat

definition employee_text :: "employee \<Rightarrow> string" where
  "employee_text employee =
     emp_name employee @ '' Skills: '' @ join '', '' (emp_skills employee)
       @ '' Resume: '' @ emp_resume_text employee"

definition project_text :: "project \<Rightarrow> string" where
  "project_text project =
     proj_title project @ '' Required Skills: '' @ join '', '' (proj_required_skills project)
       @ '' Description: '' @ proj_description project"

text \<open>
  The block \<^verbatim>\<open>if not employee.embedding_vector: ... else: ...\<close>: a missing or empty vector is
  generated, written to the record store and upserted into the index; a non-empty one is
  reused.
\<close>

definition employee_embedding_step :: "system \<Rightarrow> int \<Rightarrow> employee \<Rightarrow> py_error + embedding \<times> system" where
  "employee_embedding_step sys employee_id employee =
     (case emp_embedding_vector employee of
        Some (x # xs) \<Rightarrow> Inr (x # xs, sys)
      | _ \<Rightarrow>
          (case generate_embedding (employee_text employee) of
             Inl e \<Rightarrow> Inl e
           | Inr employee_embedding \<Rightarrow>
               Inr (employee_embedding,
                    \<lparr> sys_db = db_update_employee_embedding (sys_db sys) employee_id employee_embedding,
                      sys_vs = vs_update_employee_embedding (sys_vs sys) employee_id (emp_name employee)
                                 (emp_skills employee) (emp_resume_text employee) employee_embedding \<rparr>)))"

definition project_embedding_step :: "system \<Rightarrow> int \<Rightarrow> project \<Rightarrow> py_error + embedding \<times> system" where
  "project_embedding_step sys project_id project =
     (case proj_embedding_vector project of
        Some (x # xs) \<Rightarrow> Inr (x # xs, sys)
      | _ \<Rightarrow>
          (case generate_embedding (project_text project) of
             Inl e \<Rightarrow> Inl e
           | Inr project_embedding \<Rightarrow>
               Inr (project_embedding,
                    \<lparr> sys_db = db_update_project_embedding (sys_db sys) project_id project_embedding,
                      sys_vs = vs_update_project_embedding (sys_vs sys) project_id (proj_title project)
                                 (proj_required_skills project) (proj_description project)
                                 project_embedding \<rparr>)))"

text \<open>
  The loop of \<^verbatim>\<open>match_employee_to_projects\<close> over \<^verbatim>\<open>similar_projects\<close>: a candidate whose
  project is not among \<^verbatim>\<open>get_all_projects()\<close> is skipped; the others are appended to
  \<^verbatim>\<open>enhanced_matches\<close> and stored in the match history.
\<close>

fun enhance_projects ::
  "nat \<Rightarrow> employee \<Rightarrow> int \<Rightarrow> similar list \<Rightarrow> database \<Rightarrow> project_match list
     \<Rightarrow> project_match list \<times> database" where
  "enhance_projects now employee employee_id [] db enhanced_matches = (enhanced_matches, db)"
| "enhance_projects now employee employee_id (project_data # rest) db enhanced_matches =
     (let project_id = sim_id project_data
      in case find (\<lambda>p. proj_id p = project_id) (get_all_projects db) of
           None \<Rightarrow> enhance_projects now employee employee_id rest db enhanced_matches
         | Some project \<Rightarrow>
             (let skill_gap_analysis = find_skill_gaps (emp_skills employee) (proj_required_skills project);
                  overall_score = calculate_overall_score (sim_similarity_score project_data)
                                    (match_percentage skill_gap_analysis);
                  enhanced_match =
                    \<lparr> pm_project_id = project_id,
                      pm_title = proj_title project,
                      pm_description = proj_description project,
                      pm_team_size = proj_team_size project,
                      pm_required_skills = proj_required_skills project,
                      pm_similarity_score = sim_similarity_score project_data,
                      pm_skill_match_percentage = match_percentage skill_gap_analysis,
                      pm_matched_skills = matched_skills skill_gap_analysis,
                      pm_missing_skills = missing_skills skill_gap_analysis,
                      pm_overall_score = overall_score \<rparr>;
                  db' = snd (add_match_history db now employee_id project_id
                               (sim_similarity_score project_data)
                               (missing_skills skill_gap_analysis)
                               (matched_skills skill_gap_analysis)
                               (match_percentage skill_gap_analysis)
                               overall_score)
              in enhance_projects now employee employee_id rest db' (enhanced_matches @ [enhanced_match])))"

text \<open>
  \<^verbatim>\<open>match_employee_to_projects\<close>. The final
  \<^verbatim>\<open>enhanced_matches.sort(key=lambda x: x['overall_score'], reverse=True)\<close> is a stable
  descending sort.
\<close>

definition match_employee_to_projects ::
  "(embedding \<Rightarrow> embedding \<Rightarrow> rat) \<Rightarrow> nat \<Rightarrow> system \<Rightarrow> int \<Rightarrow> nat
     \<Rightarrow> py_error + project_match list \<times> system" where
  "match_employee_to_projects cosine now sys employee_id top_k =
     (case get_employee (sys_db sys) employee_id of
        None \<Rightarrow> Inr ([], sys)
      | Some employee \<Rightarrow>
          (case employee_embedding_step sys employee_id employee of
             Inl e \<Rightarrow> Inl e
           | Inr (employee_embedding, sys1) \<Rightarrow>
               (let similar_projects = find_similar_projects cosine (sys_vs sys1) employee_embedding top_k;
                    result = enhance_projects now employee employee_id similar_projects (sys_db sys1) []
                in Inr (sort_key (\<lambda>x. - pm_overall_score x) (fst result),
                        sys1\<lparr> sys_db := snd result \<rparr>))))"

text \<open>The loop of \<^verbatim>\<open>match_project_to_employees\<close> over \<^verbatim>\<open>similar_employees\<close>.\<close>

fun enhance_employees ::
  "project \<Rightarrow> similar list \<Rightarrow> database \<Rightarrow> employee_match list \<Rightarrow> employee_match list" where
  "enhance_employees project [] db enhanced_matches = enhanced_matches"
| "enhance_employees project (employee_data # rest) db enhanced_matches =
     (let employee_id = sim_id employee_data
      in case get_employee db employee_id of
           None \<Rightarrow> enhance_employees project rest db enhanced_matches
         | Some employee \<Rightarrow>
             (let skill_gap_analysis = find_skill_gaps (emp_skills employee) (proj_required_skills project);
                  enhanced_match =
                    \<lparr> em_employee_id = employee_id,
                      em_name = emp_name employee,
                      em_skills = emp_skills employee,
                      em_preferences = emp_preferences employee,
                      em_similarity_score = sim_similarity_score employee_data,
                      em_skill_match_percentage = match_percentage skill_gap_analysis,
                      em_matched_skills = matched_skills skill_gap_analysis,
                      em_missing_skills = missing_skills skill_gap_analysis,
                      em_overall_score =
                        calculate_overall_score (sim_similarity_score employee_data)
                          (match_percentage skill_gap_analysis) \<rparr>
              in enhance_employees project rest db (enhanced_matches @ [enhanced_match])))"

definition match_project_to_employees ::
  "(embedding \<Rightarrow> embedding \<Rightarrow> rat) \<Rightarrow> system \<Rightarrow> int \<Rightarrow> nat
     \<Rightarrow> py_error + employee_match list \<times> system" where
  "match_project_to_employees cosine sys project_id top_k =
     (case find (\<lambda>p. proj_id p = project_id) (get_all_projects (sys_db sys)) of
        None \<Rightarrow> Inr ([], sys)
      | Some project \<Rightarrow>
          (case project_embedding_step sys project_id project of
             Inl e \<Rightarrow> Inl e
           | Inr (project_embedding, sys1) \<Rightarrow>
               (let similar_employees = find_similar_employees cosine (sys_vs sys1) project_embedding top_k;
                    enhanced_matches = enhance_employees project similar_employees (sys_db sys1) []
                in Inr (sort_key (\<lambda>x. - em_overall_score x) enhanced_matches, sys1))))"

text \<open>\<^verbatim>\<open>_get_recommended_courses\<close>.\<close>

definition course_to_dict :: "course \<Rightarrow> course_dict" where
  "course_to_dict course =
     \<lparr> cd_id = course_id course, cd_title = course_title course,
       cd_skill_tags = Some (course_skill_tags course), cd_provider = course_provider course,
       cd_url = course_url course, cd_description = course_description course \<rparr>"

definition get_recommended_courses :: "database \<Rightarrow> string list \<Rightarrow> py_error + recommendation list" where
  "get_recommended_courses db missing =
     recommend_courses missing (map course_to_dict (get_all_courses db))"

text \<open>
  The values \<^verbatim>\<open>analyze_skill_gaps\<close> returns: the empty dictionary, the report for one
  project, or the general report; Python's \<^verbatim>\<open>None\<close>, the value of a call that falls off
  the end of the function, is \<open>None\<close>.
\<close>

datatype gap_report =
  Empty_report
| Project_report int int string skill_gap "recommendation list"
| General_report int skill_gap "recommendation list" "(string \<times> string list) list"

text \<open>
  The two branches of \<^verbatim>\<open>analyze_skill_gaps\<close> and the function itself. The test
  \<^verbatim>\<open>if project_id:\<close> holds for an id that is given and not zero; when it holds and no
  project has the id, no \<^verbatim>\<open>return\<close> is reached. In the general branch
  \<^verbatim>\<open>list(all_required_skills)\<close> enumerates a set, in an order Python leaves open;
  \<open>remdups\<close> of the concatenation is one such enumeration.
\<close>

definition project_gap_report ::
  "database \<Rightarrow> int \<Rightarrow> employee \<Rightarrow> int \<Rightarrow> py_error + gap_report option" where
  "project_gap_report db employee_id employee project_id =
     (case find (\<lambda>p. proj_id p = project_id) (get_all_projects db) of
        Some project \<Rightarrow>
          (let skill_gap_analysis =
                 find_skill_gaps (emp_skills employee) (proj_required_skills project)
           in case get_recommended_courses db (missing_skills skill_gap_analysis) of
                Inl e \<Rightarrow> Inl e
              | Inr recommended \<Rightarrow>
                  Inr (Some (Project_report employee_id project_id (proj_title project)
                               skill_gap_analysis recommended)))
      | None \<Rightarrow> Inr None)"

definition general_gap_report :: "database \<Rightarrow> int \<Rightarrow> employee \<Rightarrow> py_error + gap_report option" where
  "general_gap_report db employee_id employee =
     (let all_required_skills = remdups (concat (map proj_required_skills (get_all_projects db)));
          skill_gap_analysis = find_skill_gaps (emp_skills employee) all_required_skills
      in case get_recommended_courses db (missing_skills skill_gap_analysis) of
           Inl e \<Rightarrow> Inl e
         | Inr recommended \<Rightarrow>
             Inr (Some (General_report employee_id skill_gap_analysis recommended
                          (categorize_skills (emp_skills employee)))))"

definition analyze_skill_gaps :: "database \<Rightarrow> int \<Rightarrow> int option \<Rightarrow> py_error + gap_report option" where
  "analyze_skill_gaps db employee_id project_id =
     (case get_employee db employee_id of
        None \<Rightarrow> Inr (Some Empty_report)
      | Some employee \<Rightarrow>
          (case project_id of
             None \<Rightarrow> general_gap_report db employee_id employee
           | Some pid \<Rightarrow>
               (if pid \<noteq> 0 then project_gap_report db employee_id employee pid
                else general_gap_report db employee_id employee)))"

text \<open>
  A candidate of the index can be resolved when the record store has a record with its id.
\<close>

definition resolvable_project :: "database \<Rightarrow> int \<Rightarrow> bool" where
  "resolvable_project db i \<longleftrightarrow> (\<exists>p \<in> set (projects db). proj_id p = i)"

definition resolvable_employee :: "database \<Rightarrow> int \<Rightarrow> bool" where
  "resolvable_employee db i \<longleftrightarrow> (\<exists>e \<in> set (employees db). emp_id e = i)"

section \<open>Example data\<close>

text \<open>
  A small system on which the theorems are exercised: two employees, two projects, one
  course, and an index that also holds one entry per collection whose record is gone
  (project 9, employee 8). The distance compares the first components.
\<close>

definition demo_dist :: "embedding \<Rightarrow> embedding \<Rightarrow> rat" where
  "demo_dist u v = (case (u, v) of (x # _, y # _) \<Rightarrow> \<bar>x - y\<bar> | _ \<Rightarrow> 1)"

definition alice :: employee where
  "alice = \<lparr> emp_id = 1, emp_name = ''Alice'', emp_skills = [''Python'', ''React''],
             emp_preferences = [''remote''], emp_resume_text = ''Web developer'',
             emp_embedding_vector = Some [1 / 2] \<rparr>"

definition bob :: employee where
  "bob = \<lparr> emp_id = 4, emp_name = ''Bob'', emp_skills = [''docker'', ''django''],
           emp_preferences = [], emp_resume_text = ''Operations'',
           emp_embedding_vector = Some [1 / 4] \<rparr>"

definition web_shop :: project where
  "web_shop = \<lparr> proj_id = 2, proj_title = ''Web shop'',
                proj_required_skills = [''python'', ''django'', ''docker''], proj_team_size = 3,
                proj_description = ''A shop'', proj_embedding_vector = Some [3 / 5] \<rparr>"

definition data_platform :: project where
  "data_platform = \<lparr> proj_id = 3, proj_title = ''Data platform'',
                proj_required_skills = [''python''], proj_team_size = 2,
                proj_description = ''Pipelines'', proj_embedding_vector = Some [9 / 10] \<rparr>"

definition docker_course :: course where
  "docker_course = \<lparr> course_id = 1, course_title = ''Containers'',
                course_skill_tags = [''docker'', ''kubernetes''], course_provider = ''Acme'',
                course_url = ''http://courses.example/containers'',
                course_description = ''Containers in practice'' \<rparr>"

definition demo_db :: database where
  "demo_db = \<lparr> employees = [alice, bob], projects = [web_shop, data_platform],
               courses = [docker_course], match_history = [], match_history_seq = 0 \<rparr>"

definition entry_of :: "int \<Rightarrow> string \<Rightarrow> embedding \<Rightarrow> index_entry" where
  "entry_of i name v =
     \<lparr> entry_id = i, entry_embedding = v, entry_document = name, entry_name = name,
       entry_skills = [] \<rparr>"

definition demo_vs :: vector_store where
  "demo_vs = \<lparr> employees_collection =
                 [entry_of 1 ''Alice'' [1 / 2], entry_of 8 ''Carol'' [3 / 5], entry_of 4 ''Bob'' [1 / 4]],
               projects_collection =
                 [entry_of 2 ''Web shop'' [3 / 5], entry_of 3 ''Data platform'' [9 / 10],
                  entry_of 9 ''Archive'' [1 / 2]] \<rparr>"

definition demo :: system where
  "demo = \<lparr> sys_db = demo_db, sys_vs = demo_vs \<rparr>"

text \<open>The same record store with an empty index.\<close>

definition quiet :: system where
  "quiet = \<lparr> sys_db = demo_db, sys_vs = \<lparr> employees_collection = [], projects_collection = [] \<rparr> \<rparr>"

section \<open>Facts about strings and rounding\<close>

lemma str_in_sublist: "str_in x y \<longleftrightarrow> sublist x y"
  by (induction y) (auto simp: sublist_Cons_right)

lemma fuzzy_any_iff:
  "fuzzy_any x ss \<longleftrightarrow> (\<exists>s \<in> set ss. sublist x s \<or> sublist s x)"
  by (simp add: fuzzy_any_def list_ex_iff str_in_sublist)

lemma round_half_even_cases: "round_half_even q = \<lfloor>q\<rfloor> \<or> round_half_even q = \<lfloor>q\<rfloor> + 1"
  by (simp add: round_half_even_def Let_def)

lemma round_half_even_of_int: "round_half_even (of_int n) = n"
  by (simp add: round_half_even_def Let_def)

lemma round_half_even_lower: "0 \<le> q \<Longrightarrow> 0 \<le> round_half_even q"
  using round_half_even_cases [of q] by (auto simp: zero_le_floor intro: add_nonneg_nonneg)

lemma round_half_even_upper:
  assumes "q \<le> of_int n"
  shows "round_half_even q \<le> n"
proof (cases "q = of_int n")
  case True
  then show ?thesis by (simp add: round_half_even_of_int)
next
  case False
  with assms have "q < of_int n" by simp
  then have "\<lfloor>q\<rfloor> < n" by (simp add: floor_less_iff)
  then show ?thesis using round_half_even_cases [of q] by auto
qed

lemma py_round2_bounds:
  assumes "0 \<le> q" and "q \<le> 100"
  shows "0 \<le> py_round2 q \<and> py_round2 q \<le> 100"
proof -
  have lo: "0 \<le> round_half_even (q * 100)"
    using assms by (intro round_half_even_lower) simp
  have "q * 100 \<le> of_int 10000" using assms by simp
  then have hi: "round_half_even (q * 100) \<le> 10000" by (rule round_half_even_upper)
  have "(of_int (round_half_even (q * 100)) :: rat) \<le> of_int 10000"
    using hi by (simp only: of_int_le_iff)
  then show ?thesis using lo by (simp add: py_round2_def)
qed

lemma py_round2_of_int: "py_round2 (of_int n) = of_int n"
proof -
  have "of_int n * (100 :: rat) = of_int (n * 100)" by simp
  then have "round_half_even (of_int n * 100) = n * 100"
    by (simp only: round_half_even_of_int)
  then show ?thesis by (simp add: py_round2_def)
qed

lemma collect_missing_eq:
  "collect_missing es rs acc = acc @ filter (\<lambda>r. \<not> fuzzy_any (lower r) es) rs"
  by (induction rs arbitrary: acc) auto

lemma missing_skills_eq:
  "missing_skills (find_skill_gaps cs rs) = filter (\<lambda>r. \<not> fuzzy_any (lower r) (map lower cs)) rs"
  by (simp add: find_skill_gaps_def Let_def collect_missing_eq)

lemma matched_skills_eq:
  "matched_skills (find_skill_gaps cs rs) = filter (\<lambda>r. fuzzy_any (lower r) (map lower cs)) rs"
proof -
  have "filter (\<lambda>skill. skill \<notin> set (filter (\<lambda>r. \<not> fuzzy_any (lower r) (map lower cs)) rs)) rs
      = filter (\<lambda>r. fuzzy_any (lower r) (map lower cs)) rs"
    by (rule filter_cong) auto
  then show ?thesis by (simp add: find_skill_gaps_def Let_def collect_missing_eq)
qed

lemma match_percentage_eq:
  "match_percentage (find_skill_gaps cs rs) =
     (if rs \<noteq> []
      then py_round2 (of_int (int (length rs) - int (length (missing_skills (find_skill_gaps cs rs))))
                        / of_int (int (length rs)) * 100)
      else 0)"
  by (simp add: find_skill_gaps_def Let_def)

section \<open>Facts about the embedding\<close>

lemma le_bytes_range: "b \<in> set (le_bytes n v) \<Longrightarrow> 0 \<le> b \<and> b < 256"
  by (induction n arbitrary: v) auto

lemma md5_digest_range: "b \<in> set (md5_digest msg) \<Longrightarrow> 0 \<le> b \<and> b < 256"
  by (auto simp: md5_digest_def Let_def split: prod.splits dest: le_bytes_range)

lemma md5_digest_bytes: "\<forall>b \<in> set (md5_digest msg). 0 \<le> b \<and> b < 256"
  using md5_digest_range by blast

lemma length_le_bytes: "length (le_bytes n v) = n"
  by (induction n arbitrary: v) auto

lemma length_md5_digest: "length (md5_digest msg) = 16"
  by (simp add: md5_digest_def Let_def length_le_bytes split: prod.splits)

lemma hex_digits_upto: "\<forall>n \<in> set [0..15]. hex_value (hex_digit n) = Some n"
  by code_simp

lemma hex_value_hex_digit:
  assumes "0 \<le> n" and "n < 16"
  shows "hex_value (hex_digit n) = Some n"
proof -
  from assms have "n \<in> set [0..15]" by simp
  with hex_digits_upto show ?thesis by blast
qed

lemma py_int16_byte:
  assumes "0 \<le> b" and "b < 256"
  shows "py_int16 [hex_digit (b div 16), hex_digit (b mod 16)] = Inr b"
proof -
  have hi: "hex_value (hex_digit (b div 16)) = Some (b div 16)"
    using assms by (intro hex_value_hex_digit) auto
  have lo: "hex_value (hex_digit (b mod 16)) = Some (b mod 16)"
    by (intro hex_value_hex_digit) auto
  show ?thesis by (simp add: py_int16_def hi lo)
qed

lemma hex_pairs_loop_hexdigest:
  assumes "\<forall>b \<in> set bs. 0 \<le> b \<and> b < 256"
  shows "hex_pairs_loop (hexdigest bs) acc = Inr (acc @ map (\<lambda>b. of_int b / 255) bs)"
  using assms
proof (induction bs arbitrary: acc)
  case Nil
  then show ?case by (simp add: hexdigest_def)
next
  case (Cons b bs)
  have h: "hexdigest (b # bs) = hex_digit (b div 16) # hex_digit (b mod 16) # hexdigest bs"
    by (simp add: hexdigest_def)
  have p: "py_int16 [hex_digit (b div 16), hex_digit (b mod 16)] = Inr b"
    using Cons.prems by (intro py_int16_byte) auto
  have "hex_pairs_loop (hexdigest bs) (acc @ [of_int b / 255])
          = Inr ((acc @ [of_int b / 255]) @ map (\<lambda>b. of_int b / 255) bs)"
    using Cons.prems by (intro Cons.IH) auto
  then show ?case by (simp add: h p)
qed

lemma pad_embedding_eq: "pad_embedding e = e @ replicate (384 - length e) 0"
proof (induction e rule: pad_embedding.induct)
  case (1 e)
  show ?case
  proof (cases "length e < 384")
    case True
    then have "384 - length e = Suc (384 - length (e @ [0]))" by simp
    then have "replicate (384 - length e) (0 :: rat) = 0 # replicate (384 - length (e @ [0])) 0"
      by (simp only: replicate_Suc)
    with True "1.IH" show ?thesis
      by (subst pad_embedding.simps) simp
  next
    case False
    then show ?thesis by (subst pad_embedding.simps) simp
  qed
qed

lemma generate_embedding_eq:
  "generate_embedding text =
     Inr (take 384 (map (\<lambda>b. of_int b / 255) (md5_digest (encode text))
            @ replicate (384 - length (md5_digest (encode text))) 0))"
proof -
  have "hex_pairs_loop (md5_hexdigest text) []
          = Inr ([] @ map (\<lambda>b. of_int b / 255) (md5_digest (encode text)))"
    unfolding md5_hexdigest_def using md5_digest_bytes by (rule hex_pairs_loop_hexdigest)
  then show ?thesis by (simp add: generate_embedding_def pad_embedding_eq)
qed

lemma generate_embedding_shape:
  "generate_embedding text =
     Inr (map (\<lambda>b. of_int b / 255) (md5_digest (encode text)) @ replicate 368 0)"
  by (simp add: generate_embedding_eq length_md5_digest)

lemma md5_hf: "md5_digest (encode ''hf'') = [255, 72, 39, 115, 155, 117, 215, 62, 8, 73, 11, 51, 128, 22, 54, 88]"
  by code_simp


section \<open>Facts about the course recommender\<close>

lemma count_relevant_eq:
  "count_relevant ts ms n = n + length (filter (\<lambda>m. fuzzy_any (lower m) ts) ms)"
  by (induction ms arbitrary: n) auto

lemma count_relevant_spec:
  "count_relevant (map lower (course_skills c)) ms 0 = spec_relevance ms c"
  by (simp add: count_relevant_eq spec_relevance_def fuzzy_any_iff)

lemma spec_relevance_Nil: "spec_relevance [] c = 0"
  by (simp add: spec_relevance_def)

lemma recommend_loop_eq:
  "recommend_loop ms cs acc =
     Inr (acc @ map (spec_recommendation ms) (filter (\<lambda>c. 0 < spec_relevance ms c) cs))"
proof (induction cs arbitrary: acc)
  case Nil
  then show ?case by simp
next
  case (Cons c cs)
  show ?case
  proof (cases "0 < spec_relevance ms c")
    case True
    then have "ms \<noteq> []" using spec_relevance_Nil [of c] by (cases ms) auto
    with True show ?thesis
      by (simp add: Cons.IH count_relevant_spec spec_recommendation_def Let_def)
  next
    case False
    then show ?thesis by (simp add: Cons.IH count_relevant_spec Let_def)
  qed
qed

lemma recommend_courses_eq:
  "recommend_courses ms cs =
     Inr (take 3 (sort_key (\<lambda>x. - int (relevance_score x))
            (map (spec_recommendation ms) (filter (\<lambda>c. 0 < spec_relevance ms c) cs))))"
  by (simp add: recommend_courses_def recommend_loop_eq)

lemma sorted_desc_sort_key:
  "sorted_wrt (\<lambda>a b. relevance_score b \<le> relevance_score a)
     (sort_key (\<lambda>x. - int (relevance_score x)) xs)"
proof -
  have "sorted (map (\<lambda>x. - int (relevance_score x)) (sort_key (\<lambda>x. - int (relevance_score x)) xs))"
    by (rule sorted_sort_key)
  then show ?thesis by (simp add: sorted_map sorted_wrt_iff_nth_less)
qed

lemma sorted_wrt_take: "sorted_wrt P xs \<Longrightarrow> sorted_wrt P (take n xs)"
  by (metis append_take_drop_id sorted_wrt_append)

section \<open>Facts about the match history\<close>

lemma same_pair_key: "same_pair e p r \<longleftrightarrow> pair_key r = (e, p)"
  by (auto simp: same_pair_def pair_key_def)

lemma find_None_keys: "find (same_pair e p) rows = None \<Longrightarrow> (e, p) \<notin> set (map pair_key rows)"
  by (auto simp: find_None_iff same_pair_key)

lemma filter_found:
  "distinct (map pair_key rows) \<Longrightarrow> find (same_pair e p) rows = Some x \<Longrightarrow>
     filter (same_pair e p) rows = [x]"
proof (induction rows)
  case Nil
  then show ?case by simp
next
  case (Cons r rows)
  show ?case
  proof (cases "same_pair e p r")
    case True
    then have x: "x = r" using Cons.prems(2) by simp
    have "(e, p) \<notin> set (map pair_key rows)"
      using True Cons.prems(1) by (simp add: same_pair_key)
    then have "filter (same_pair e p) rows = []"
      by (force simp: filter_empty_conv same_pair_key)
    with True x show ?thesis by simp
  next
    case False
    then show ?thesis using Cons by simp
  qed
qed

lemma pair_key_set_match: "pair_key (set_match now s miss mat pct ov r) = pair_key r"
  by (simp add: pair_key_def set_match_def)

lemma same_pair_upsert:
  "same_pair e p (if same_pair e p r then set_match now s miss mat pct ov r else r) = same_pair e p r"
  by (simp add: same_pair_key pair_key_set_match)

lemma filter_map_invariant:
  "(\<And>r. P (f r) = P r) \<Longrightarrow> filter P (map f rows) = map f (filter P rows)"
  by (induction rows) auto

lemma add_match_history_unique:
  assumes "unique_pairs db"
  shows "unique_pairs (snd (add_match_history db now e p s miss mat pct ov))"
proof (cases "find (same_pair e p) (match_history db)")
  case None
  then show ?thesis
    using assms find_None_keys [OF None]
    by (simp add: add_match_history_def unique_pairs_def Let_def pair_key_def)
next
  case (Some x)
  have "map pair_key (map (\<lambda>r. if same_pair e p r then set_match now s miss mat pct ov r else r)
          (match_history db)) = map pair_key (match_history db)"
    by (induction "match_history db") (simp_all add: pair_key_set_match)
  then show ?thesis using assms Some
    by (simp add: add_match_history_def unique_pairs_def del: map_map)
qed

lemma add_match_history_row:
  assumes "unique_pairs db"
  shows "filter (same_pair e p) (match_history (snd (add_match_history db now e p s miss mat pct ov)))
           = [stored_row (fst (add_match_history db now e p s miss mat pct ov)) now e p s miss mat pct ov]"
proof (cases "find (same_pair e p) (match_history db)")
  case None
  then have "filter (same_pair e p) (match_history db) = []"
    by (auto simp: find_None_iff filter_empty_conv)
  with None show ?thesis
    by (simp add: add_match_history_def Let_def stored_row_def same_pair_def)
next
  case (Some x)
  let ?upd = "\<lambda>r. if same_pair e p r then set_match now s miss mat pct ov r else r"
  have f: "filter (same_pair e p) (match_history db) = [x]"
    using assms Some by (simp add: unique_pairs_def filter_found)
  have sp: "same_pair e p x" using Some by (auto simp: find_Some_iff)
  have "filter (same_pair e p) (map ?upd (match_history db))
      = map ?upd (filter (same_pair e p) (match_history db))"
    by (rule filter_map_invariant) (rule same_pair_upsert)
  then have "filter (same_pair e p) (map ?upd (match_history db)) = [?upd x]"
    using f by simp
  moreover have "?upd x = stored_row (mh_id x) now e p s miss mat pct ov"
    using sp by (simp add: stored_row_def same_pair_def set_match_def)
  ultimately show ?thesis using Some
    by (simp add: add_match_history_def)
qed

lemma add_match_history_same_id:
  assumes "filter (same_pair e p) (match_history db) = [x]"
  shows "fst (add_match_history db now e p s miss mat pct ov) = mh_id x"
proof (cases "find (same_pair e p) (match_history db)")
  case None
  then have "filter (same_pair e p) (match_history db) = []"
    by (auto simp: find_None_iff filter_empty_conv)
  with assms show ?thesis by simp
next
  case (Some y)
  then have "y \<in> set (filter (same_pair e p) (match_history db))"
    by (auto simp: find_Some_iff)
  with assms have "y = x" by simp
  with Some show ?thesis by (simp add: add_match_history_def)
qed

lemma unique_pairs_init: "unique_pairs init_database"
  by (simp add: unique_pairs_def init_database_def)

section \<open>Facts about the match orchestrator\<close>

lemma sorted_desc_by:
  fixes f :: "'a \<Rightarrow> rat"
  shows "sorted_wrt (\<lambda>a b. f b \<le> f a) (sort_key (\<lambda>x. - f x) xs)"
proof -
  have "sorted (map (\<lambda>x. - f x) (sort_key (\<lambda>x. - f x) xs))"
    by (rule sorted_sort_key)
  then show ?thesis by (simp add: sorted_map)
qed

lemma length_collection_query: "length (collection_query cosine coll v k) \<le> k"
  by (simp add: collection_query_def)

lemma length_find_similar_projects: "length (find_similar_projects cosine store v k) \<le> k"
  by (simp add: find_similar_projects_def length_collection_query)

lemma length_find_similar_employees: "length (find_similar_employees cosine store v k) \<le> k"
  by (simp add: find_similar_employees_def length_collection_query)

lemma add_match_history_projects:
  "projects (snd (add_match_history db now e p s miss mat pct ov)) = projects db"
  by (simp add: add_match_history_def Let_def split: option.splits)

lemma find_resolvable_project:
  "find (\<lambda>p. proj_id p = i) (projects db) = None \<longleftrightarrow> \<not> resolvable_project db i"
  by (auto simp: find_None_iff resolvable_project_def)

lemma get_employee_resolvable:
  "get_employee db i = None \<longleftrightarrow> \<not> resolvable_employee db i"
  by (auto simp: get_employee_def find_None_iff resolvable_employee_def)

lemma resolvable_project_cong:
  "projects db' = projects db \<Longrightarrow> resolvable_project db' = resolvable_project db"
  by (auto simp: resolvable_project_def fun_eq_iff)

lemma enhance_projects_ids:
  "map pm_project_id (fst (enhance_projects now e eid cands db acc))
     = map pm_project_id acc @ filter (resolvable_project db) (map sim_id cands)"
proof (induction cands arbitrary: db acc)
  case Nil
  then show ?case by simp
next
  case (Cons c cands)
  show ?case
  proof (cases "find (\<lambda>p. proj_id p = sim_id c) (projects db)")
    case None
    then have "\<not> resolvable_project db (sim_id c)" by (simp add: find_resolvable_project)
    with None show ?thesis by (simp add: get_all_projects_def Cons.IH)
  next
    case (Some p)
    then have r: "resolvable_project db (sim_id c)"
      using find_resolvable_project [of "sim_id c" db] by simp
    let ?g = "find_skill_gaps (emp_skills e) (proj_required_skills p)"
    let ?db' = "snd (add_match_history db now eid (sim_id c) (sim_similarity_score c)
                  (missing_skills ?g) (matched_skills ?g) (match_percentage ?g)
                  (calculate_overall_score (sim_similarity_score c) (match_percentage ?g)))"
    have "resolvable_project ?db' = resolvable_project db"
      by (rule resolvable_project_cong) (rule add_match_history_projects)
    with Some r show ?thesis
      by (simp add: get_all_projects_def Let_def Cons.IH)
  qed
qed

lemma enhance_employees_ids:
  "map em_employee_id (enhance_employees p cands db acc)
     = map em_employee_id acc @ filter (resolvable_employee db) (map sim_id cands)"
proof (induction cands arbitrary: acc)
  case Nil
  then show ?case by simp
next
  case (Cons c cands)
  show ?case
  proof (cases "get_employee db (sim_id c)")
    case None
    then have "\<not> resolvable_employee db (sim_id c)" by (simp add: get_employee_resolvable)
    with None show ?thesis by (simp add: Cons.IH)
  next
    case (Some e)
    then have "resolvable_employee db (sim_id c)"
      using get_employee_resolvable [of db "sim_id c"] by simp
    with Some show ?thesis by (simp add: Let_def Cons.IH)
  qed
qed

lemma generate_embedding_total: "\<exists>v. generate_embedding text = Inr v"
  by (simp add: generate_embedding_shape)

lemma employee_embedding_step_total:
  "\<exists>emb sys1. employee_embedding_step sys eid e = Inr (emb, sys1)
      \<and> projects (sys_db sys1) = projects (sys_db sys)
      \<and> match_history (sys_db sys1) = match_history (sys_db sys)"
proof -
  obtain v where "generate_embedding (employee_text e) = Inr v"
    using generate_embedding_total by blast
  then show ?thesis
    by (auto simp: employee_embedding_step_def db_update_employee_embedding_def
             split: option.splits list.splits)
qed

lemma project_embedding_step_total:
  "\<exists>emb sys1. project_embedding_step sys pid p = Inr (emb, sys1)
      \<and> employees (sys_db sys1) = employees (sys_db sys)
      \<and> match_history (sys_db sys1) = match_history (sys_db sys)"
proof -
  obtain v where "generate_embedding (project_text p) = Inr v"
    using generate_embedding_total by blast
  then show ?thesis
    by (auto simp: project_embedding_step_def db_update_project_embedding_def
             split: option.splits list.splits)
qed

lemma match_employee_to_projects_absent:
  "get_employee (sys_db sys) eid = None \<Longrightarrow>
     match_employee_to_projects cosine now sys eid k = Inr ([], sys)"
  by (simp add: match_employee_to_projects_def)

lemma match_project_to_employees_absent:
  "find (\<lambda>p. proj_id p = pid) (projects (sys_db sys)) = None \<Longrightarrow>
     match_project_to_employees cosine sys pid k = Inr ([], sys)"
  by (simp add: match_project_to_employees_def get_all_projects_def)

lemma match_employee_to_projects_found:
  assumes "get_employee (sys_db sys) eid = Some e"
    and "employee_embedding_step sys eid e = Inr (emb, sys1)"
  shows "match_employee_to_projects cosine now sys eid k =
     Inr (sort_key (\<lambda>x. - pm_overall_score x)
            (fst (enhance_projects now e eid (find_similar_projects cosine (sys_vs sys1) emb k)
                    (sys_db sys1) [])),
          sys1\<lparr> sys_db := snd (enhance_projects now e eid
                    (find_similar_projects cosine (sys_vs sys1) emb k) (sys_db sys1) []) \<rparr>)"
  using assms by (simp add: match_employee_to_projects_def Let_def)

lemma match_project_to_employees_found:
  assumes "find (\<lambda>p. proj_id p = pid) (projects (sys_db sys)) = Some p"
    and "project_embedding_step sys pid p = Inr (emb, sys1)"
  shows "match_project_to_employees cosine sys pid k =
     Inr (sort_key (\<lambda>x. - em_overall_score x)
            (enhance_employees p (find_similar_employees cosine (sys_vs sys1) emb k) (sys_db sys1) []),
          sys1)"
  using assms by (simp add: match_project_to_employees_def get_all_projects_def Let_def)

lemma length_filter_map_le: "length (filter P (map f xs)) \<le> length xs"
  by (metis length_filter_le length_map)

lemma employee_matches_ranked:
  "\<exists>ms sys'. match_employee_to_projects cosine now sys eid k = Inr (ms, sys')
     \<and> sorted_wrt (\<lambda>a b. pm_overall_score b \<le> pm_overall_score a) ms
     \<and> length ms \<le> k
     \<and> (\<forall>e emb sys1. get_employee (sys_db sys) eid = Some e
            \<and> employee_embedding_step sys eid e = Inr (emb, sys1) \<longrightarrow>
          mset (map pm_project_id ms)
            = mset (filter (resolvable_project (sys_db sys))
                      (map sim_id (find_similar_projects cosine (sys_vs sys1) emb k))))"
proof (cases "get_employee (sys_db sys) eid")
  case None
  then show ?thesis by (simp add: match_employee_to_projects_absent)
next
  case (Some e)
  obtain emb sys1 where st: "employee_embedding_step sys eid e = Inr (emb, sys1)"
      and pr: "projects (sys_db sys1) = projects (sys_db sys)"
    using employee_embedding_step_total by blast
  define cands where "cands = find_similar_projects cosine (sys_vs sys1) emb k"
  define en where "en = fst (enhance_projects now e eid cands (sys_db sys1) [])"
  define ms where "ms = sort_key (\<lambda>x. - pm_overall_score x) en"
  have res: "resolvable_project (sys_db sys1) = resolvable_project (sys_db sys)"
    using pr by (rule resolvable_project_cong)
  have ids: "map pm_project_id en = filter (resolvable_project (sys_db sys)) (map sim_id cands)"
    unfolding en_def using enhance_projects_ids [of now e eid cands "sys_db sys1" "[]"]
    by (simp add: res)
  have "length en = length (map pm_project_id en)" by simp
  also have "\<dots> \<le> length cands" unfolding ids by (rule length_filter_map_le)
  also have "\<dots> \<le> k" unfolding cands_def by (rule length_find_similar_projects)
  finally have len: "length ms \<le> k" by (simp add: ms_def)
  have srt: "sorted_wrt (\<lambda>a b. pm_overall_score b \<le> pm_overall_score a) ms"
    unfolding ms_def by (rule sorted_desc_by)
  have "mset (map pm_project_id ms) = mset (map pm_project_id en)"
    by (simp add: ms_def)
  then have perm: "mset (map pm_project_id ms)
      = mset (filter (resolvable_project (sys_db sys)) (map sim_id cands))"
    by (simp only: ids)
  have run: "match_employee_to_projects cosine now sys eid k =
      Inr (ms, sys1\<lparr> sys_db := snd (enhance_projects now e eid cands (sys_db sys1) []) \<rparr>)"
    unfolding ms_def en_def cands_def using Some st by (rule match_employee_to_projects_found)
  show ?thesis
    using run srt len perm Some st unfolding cands_def by auto
qed

lemma project_matches_ranked:
  "\<exists>ms sys'. match_project_to_employees cosine sys pid k = Inr (ms, sys')
     \<and> sorted_wrt (\<lambda>a b. em_overall_score b \<le> em_overall_score a) ms
     \<and> length ms \<le> k
     \<and> (\<forall>p emb sys1. find (\<lambda>p. proj_id p = pid) (projects (sys_db sys)) = Some p
            \<and> project_embedding_step sys pid p = Inr (emb, sys1) \<longrightarrow>
          mset (map em_employee_id ms)
            = mset (filter (resolvable_employee (sys_db sys))
                      (map sim_id (find_similar_employees cosine (sys_vs sys1) emb k))))"
proof (cases "find (\<lambda>p. proj_id p = pid) (projects (sys_db sys))")
  case None
  then show ?thesis by (simp add: match_project_to_employees_absent)
next
  case (Some p)
  obtain emb sys1 where st: "project_embedding_step sys pid p = Inr (emb, sys1)"
      and em: "employees (sys_db sys1) = employees (sys_db sys)"
    using project_embedding_step_total by blast
  define cands where "cands = find_similar_employees cosine (sys_vs sys1) emb k"
  define en where "en = enhance_employees p cands (sys_db sys1) []"
  define ms where "ms = sort_key (\<lambda>x. - em_overall_score x) en"
  have res: "resolvable_employee (sys_db sys1) = resolvable_employee (sys_db sys)"
    using em by (auto simp: resolvable_employee_def fun_eq_iff)
  have ids: "map em_employee_id en = filter (resolvable_employee (sys_db sys)) (map sim_id cands)"
    unfolding en_def using enhance_employees_ids [of p cands "sys_db sys1" "[]"]
    by (simp add: res)
  have "length en = length (map em_employee_id en)" by simp
  also have "\<dots> \<le> length cands" unfolding ids by (rule length_filter_map_le)
  also have "\<dots> \<le> k" unfolding cands_def by (rule length_find_similar_employees)
  finally have len: "length ms \<le> k" by (simp add: ms_def)
  have srt: "sorted_wrt (\<lambda>a b. em_overall_score b \<le> em_overall_score a) ms"
    unfolding ms_def by (rule sorted_desc_by)
  have "mset (map em_employee_id ms) = mset (map em_employee_id en)"
    by (simp add: ms_def)
  then have perm: "mset (map em_employee_id ms)
      = mset (filter (resolvable_employee (sys_db sys)) (map sim_id cands))"
    by (simp only: ids)
  have run: "match_project_to_employees cosine sys pid k = Inr (ms, sys1)"
    unfolding ms_def en_def cands_def using Some st by (rule match_project_to_employees_found)
  show ?thesis
    using run srt len perm Some st unfolding cands_def by auto
qed

section \<open>Facts about the gap analysis and the persistence of matches\<close>

lemma project_gap_report_not_empty:
  "project_gap_report db eid e pid \<noteq> Inr (Some Empty_report)"
  by (simp add: project_gap_report_def Let_def split: option.splits sum.splits)

lemma general_gap_report_not_empty:
  "general_gap_report db eid e \<noteq> Inr (Some Empty_report)"
  by (simp add: general_gap_report_def Let_def split: sum.splits)

lemma analyze_skill_gaps_empty_iff:
  "analyze_skill_gaps db eid opid = Inr (Some Empty_report) \<longleftrightarrow> get_employee db eid = None"
  by (auto simp: analyze_skill_gaps_def project_gap_report_not_empty general_gap_report_not_empty
           split: option.splits)

lemma match_project_to_employees_history:
  assumes "match_project_to_employees cosine sys pid k = Inr (ms, sys')"
  shows "match_history (sys_db sys') = match_history (sys_db sys)"
proof (cases "find (\<lambda>p. proj_id p = pid) (projects (sys_db sys))")
  case None
  with assms show ?thesis by (simp add: match_project_to_employees_absent)
next
  case (Some p)
  obtain emb sys1 where st: "project_embedding_step sys pid p = Inr (emb, sys1)"
      and mh: "match_history (sys_db sys1) = match_history (sys_db sys)"
    using project_embedding_step_total by blast
  from assms have "sys' = sys1"
    by (simp add: match_project_to_employees_found [OF Some st])
  with mh show ?thesis by simp
qed


section \<open>Claims about the skill-gap analysis and the score\<close>

text \<open>
  C1. For every candidate-skill list and required-skill list, the matched and the missing
  skills of \<^verbatim>\<open>find_skill_gaps\<close> partition the required skills: as sets their union is
  the set of required skills and they are disjoint. The match percentage is
  \<open>round((|required| - |missing|) / |required| * 100, 2)\<close> for a non-empty required list,
  it is 100 when nothing is missing and the required list is non-empty, and it is 0 when
  the required list is empty.
\<close>

theorem find_skill_gaps_partition:
  fixes candidate required :: "string list"
  defines "g \<equiv> find_skill_gaps candidate required"
  shows "set (matched_skills g) \<union> set (missing_skills g) = set required
       \<and> set (matched_skills g) \<inter> set (missing_skills g) = {}
       \<and> (required \<noteq> [] \<longrightarrow>
            match_percentage g =
              py_round2 ((of_nat (length required) - of_nat (length (missing_skills g)))
                           / of_nat (length required) * 100))
       \<and> (missing_skills g = [] \<and> required \<noteq> [] \<longrightarrow> match_percentage g = 100)
       \<and> (required = [] \<longrightarrow> match_percentage g = 0)"
proof -
  have u: "set (matched_skills g) \<union> set (missing_skills g) = set required"
    unfolding g_def matched_skills_eq missing_skills_eq by auto
  have d: "set (matched_skills g) \<inter> set (missing_skills g) = {}"
    unfolding g_def matched_skills_eq missing_skills_eq by auto
  have p: "required \<noteq> [] \<Longrightarrow>
      match_percentage g =
        py_round2 ((of_nat (length required) - of_nat (length (missing_skills g)))
                     / of_nat (length required) * 100)"
    unfolding g_def by (simp add: match_percentage_eq)
  have full: "match_percentage g = 100" if "missing_skills g = []" and "required \<noteq> []"
  proof -
    have "match_percentage g = py_round2 (of_int 100)"
      using that p by simp
    then show ?thesis by (simp only: py_round2_of_int)
  qed
  have e: "required = [] \<Longrightarrow> match_percentage g = 0"
    unfolding g_def by (simp add: match_percentage_eq)
  from u d p full e show ?thesis by blast
qed

theorem find_skill_gaps_partition_witness:
  "[''python'', ''django'', ''docker''] \<noteq> []
   \<and> missing_skills (find_skill_gaps [''python'', ''react''] [''python'', ''django'', ''docker''])
       = [''django'', ''docker'']
   \<and> set (matched_skills (find_skill_gaps [''python'', ''react''] [''python'', ''django'', ''docker'']))
       \<union> set [''django'', ''docker''] = set [''python'', ''django'', ''docker'']
   \<and> match_percentage (find_skill_gaps [''python'', ''react''] [''python'', ''django'', ''docker''])
       = 3333 / 100
   \<and> missing_skills (find_skill_gaps [''Python'', ''SQL''] [''python'']) = []
   \<and> match_percentage (find_skill_gaps [''Python'', ''SQL''] [''python'']) = 100
   \<and> match_percentage (find_skill_gaps [''Python'', ''SQL''] []) = 0"
proof -
  have m: "missing_skills (find_skill_gaps [''python'', ''react''] [''python'', ''django'', ''docker''])
             = [''django'', ''docker'']"
    by code_simp
  have r: "py_round2 ((of_nat (length [''python'', ''django'', ''docker'']) - of_nat (length [''django'', ''docker'']))
             / of_nat (length [''python'', ''django'', ''docker'']) * 100) = 3333 / 100"
    by code_simp
  have n: "missing_skills (find_skill_gaps [''Python'', ''SQL''] [''python'']) = []"
    by code_simp
  note a = find_skill_gaps_partition [of "[''python'', ''react'']" "[''python'', ''django'', ''docker'']"]
  note b = find_skill_gaps_partition [of "[''Python'', ''SQL'']" "[''python'']"]
  note c = find_skill_gaps_partition [of "[''Python'', ''SQL'']" "[]"]
  have a1: "set (matched_skills (find_skill_gaps [''python'', ''react''] [''python'', ''django'', ''docker'']))
       \<union> set [''django'', ''docker''] = set [''python'', ''django'', ''docker'']"
    using a m by simp
  have a2: "match_percentage (find_skill_gaps [''python'', ''react''] [''python'', ''django'', ''docker''])
       = 3333 / 100"
    using a m r by simp
  have b1: "match_percentage (find_skill_gaps [''Python'', ''SQL''] [''python'']) = 100"
    using b n by simp
  have c1: "match_percentage (find_skill_gaps [''Python'', ''SQL''] []) = 0"
    using c by simp
  from m a1 a2 n b1 c1 show ?thesis by simp
qed

text \<open>
  C3. In \<^verbatim>\<open>find_skill_gaps\<close> a required skill is counted as satisfied (it is among the
  matched skills and not among the missing ones) if and only if there is a candidate skill
  such that, both lowercased, the candidate skill is a substring of the required skill or
  the required skill is a substring of the candidate skill.
\<close>

theorem find_skill_gaps_satisfied_iff:
  assumes "r \<in> set required"
  shows "(r \<in> set (matched_skills (find_skill_gaps candidate required))
          \<and> r \<notin> set (missing_skills (find_skill_gaps candidate required)))
         \<longleftrightarrow> (\<exists>c \<in> set candidate. sublist (lower c) (lower r) \<or> sublist (lower r) (lower c))"
  using assms by (auto simp: matched_skills_eq missing_skills_eq fuzzy_any_iff)

theorem find_skill_gaps_satisfied_iff_witness:
  "''JavaScript'' \<in> set [''JavaScript'', ''Docker'']
   \<and> ''JAVA'' \<in> set [''JAVA'', ''Kubernetes'']
   \<and> sublist (lower ''JAVA'') (lower ''JavaScript'')
   \<and> ''JavaScript'' \<in> set (matched_skills (find_skill_gaps [''JAVA'', ''Kubernetes''] [''JavaScript'', ''Docker'']))
   \<and> ''JavaScript'' \<notin> set (missing_skills (find_skill_gaps [''JAVA'', ''Kubernetes''] [''JavaScript'', ''Docker'']))"
proof -
  have h: "''JavaScript'' \<in> set [''JavaScript'', ''Docker'']" by simp
  have c: "''JAVA'' \<in> set [''JAVA'', ''Kubernetes'']" by simp
  have s: "sublist (lower ''JAVA'') (lower ''JavaScript'')" by code_simp
  from c s have "\<exists>c \<in> set [''JAVA'', ''Kubernetes'']. sublist (lower c) (lower ''JavaScript'')
                   \<or> sublist (lower ''JavaScript'') (lower c)"
    by blast
  with find_skill_gaps_satisfied_iff [OF h, of "[''JAVA'', ''Kubernetes'']"]
  have "''JavaScript'' \<in> set (matched_skills (find_skill_gaps [''JAVA'', ''Kubernetes''] [''JavaScript'', ''Docker'']))
      \<and> ''JavaScript'' \<notin> set (missing_skills (find_skill_gaps [''JAVA'', ''Kubernetes''] [''JavaScript'', ''Docker'']))"
    by blast
  with h c s show ?thesis by blast
qed

text \<open>
  C4. The score combiner is the total function
  \<open>overallScore(similarity, skillMatchPct) = round(0.6 * similarity + 0.4 * skillMatchPct, 2)\<close>;
  for similarity and skillMatchPct in \<open>[0, 100]\<close> the result is in \<open>[0, 100]\<close>,
  \<open>overallScore(100, 100) = 100\<close> and \<open>overallScore(0, 0) = 0\<close>.
\<close>

theorem calculate_overall_score_bounds:
  "calculate_overall_score s m = py_round2 (6 / 10 * s + 4 / 10 * m)
   \<and> (0 \<le> s \<and> s \<le> 100 \<and> 0 \<le> m \<and> m \<le> 100 \<longrightarrow>
        0 \<le> calculate_overall_score s m \<and> calculate_overall_score s m \<le> 100)
   \<and> calculate_overall_score 100 100 = 100
   \<and> calculate_overall_score 0 0 = 0"
proof -
  have b: "0 \<le> calculate_overall_score s m \<and> calculate_overall_score s m \<le> 100"
    if "0 \<le> s" "s \<le> 100" "0 \<le> m" "m \<le> 100"
  proof -
    have "0 \<le> 6 / 10 * s + 4 / 10 * m" using that by simp
    moreover have "6 / 10 * s + 4 / 10 * m \<le> 100" using that by simp
    ultimately show ?thesis
      unfolding calculate_overall_score_def by (rule py_round2_bounds)
  qed
  have "calculate_overall_score 100 100 = py_round2 (of_int 100)"
    by (simp add: calculate_overall_score_def)
  then have h: "calculate_overall_score 100 100 = 100"
    by (simp only: py_round2_of_int)
  have "calculate_overall_score 0 0 = py_round2 (of_int 0)"
    by (simp add: calculate_overall_score_def)
  then have z: "calculate_overall_score 0 0 = 0"
    by (simp only: py_round2_of_int)
  from b h z show ?thesis by (simp add: calculate_overall_score_def)
qed

theorem calculate_overall_score_bounds_witness:
  "(0 :: rat) \<le> 8125 / 100 \<and> (8125 / 100 :: rat) \<le> 100
   \<and> (0 :: rat) \<le> 3333 / 100 \<and> (3333 / 100 :: rat) \<le> 100
   \<and> calculate_overall_score (8125 / 100) (3333 / 100) = 6208 / 100
   \<and> 0 \<le> calculate_overall_score (8125 / 100) (3333 / 100)
   \<and> calculate_overall_score (8125 / 100) (3333 / 100) \<le> 100"
proof -
  have h: "(0 :: rat) \<le> 8125 / 100 \<and> (8125 / 100 :: rat) \<le> 100
         \<and> (0 :: rat) \<le> 3333 / 100 \<and> (3333 / 100 :: rat) \<le> 100"
    by simp
  have v: "calculate_overall_score (8125 / 100) (3333 / 100) = 6208 / 100"
    by code_simp
  from h v calculate_overall_score_bounds [of "8125 / 100" "3333 / 100"]
  show ?thesis by blast
qed

section \<open>Claims about the embedding\<close>

text \<open>
  C2, as the code has it. For every input string, the empty string included,
  \<^verbatim>\<open>generate_embedding\<close> raises no error and returns a vector of exactly 384 components,
  each in the closed interval \<open>[0, 1]\<close>; as a function of its argument it returns the
  same vector at every call.
\<close>

theorem generate_embedding_closed_unit:
  "\<exists>v. generate_embedding t = Inr v \<and> length v = 384 \<and> (\<forall>x \<in> set v. 0 \<le> x \<and> x \<le> 1)"
proof -
  define v where "v = map (\<lambda>b. of_int b / 255) (md5_digest (encode t)) @ replicate 368 (0 :: rat)"
  have g: "generate_embedding t = Inr v" by (simp add: v_def generate_embedding_shape)
  have l: "length v = 384" by (simp add: v_def length_md5_digest)
  have "0 \<le> x \<and> x \<le> 1" if "x \<in> set v" for x
  proof -
    from that consider b where "b \<in> set (md5_digest (encode t))" "x = of_int b / 255" | "x = 0"
      by (auto simp: v_def)
    then show ?thesis
    proof cases
      case 1
      then have "0 \<le> b" "b \<le> 255" using md5_digest_range [of b "encode t"] by auto
      then have "(0 :: rat) \<le> of_int b" "(of_int b :: rat) \<le> 255" by simp_all
      with 1 show ?thesis by simp
    next
      case 2
      then show ?thesis by simp
    qed
  qed
  with g l show ?thesis by blast
qed

theorem generate_embedding_closed_unit_witness:
  "generate_embedding ''hf'' = Inr (projr (generate_embedding ''hf''))
   \<and> length (projr (generate_embedding ''hf'')) = 384
   \<and> (72 / 255 :: rat) \<in> set (projr (generate_embedding ''hf''))
   \<and> (0 :: rat) \<le> 72 / 255 \<and> (72 / 255 :: rat) \<le> 1"
proof -
  obtain v where v: "generate_embedding ''hf'' = Inr v" "length v = 384"
      "\<forall>x \<in> set v. 0 \<le> x \<and> x \<le> 1"
    using generate_embedding_closed_unit [of "''hf''"] by blast
  have m: "(72 / 255 :: rat) \<in> set (projr (generate_embedding ''hf''))"
    by (simp add: generate_embedding_shape md5_hf)
  with v have "(0 :: rat) \<le> 72 / 255 \<and> (72 / 255 :: rat) \<le> 1" by simp
  with v m show ?thesis by simp
qed

text \<open>
  C2 as stated asks for components in the half-open interval \<open>[0, 1)\<close>. A digest byte
  \<open>0xff\<close> becomes \<open>255 / 255 = 1\<close>: the MD5 digest of \<^verbatim>\<open>hf\<close> starts with that byte.
\<close>

theorem generate_embedding_reaches_one:
  "generate_embedding ''hf'' =
     Inr ([1, 72 / 255, 39 / 255, 115 / 255, 155 / 255, 117 / 255, 215 / 255, 62 / 255,
           8 / 255, 73 / 255, 11 / 255, 51 / 255, 128 / 255, 22 / 255, 54 / 255, 88 / 255]
          @ replicate 368 0)
   \<and> \<not> (\<forall>x \<in> set (projr (generate_embedding ''hf'')). 0 \<le> x \<and> x < 1)"
proof -
  have g: "generate_embedding ''hf'' =
     Inr ([1, 72 / 255, 39 / 255, 115 / 255, 155 / 255, 117 / 255, 215 / 255, 62 / 255,
           8 / 255, 73 / 255, 11 / 255, 51 / 255, 128 / 255, 22 / 255, 54 / 255, 88 / 255]
          @ replicate 368 0)"
    by (simp add: generate_embedding_shape md5_hf)
  have "(1 :: rat) \<in> set (projr (generate_embedding ''hf''))"
    by (simp add: g)
  then have "\<not> (\<forall>x \<in> set (projr (generate_embedding ''hf'')). 0 \<le> x \<and> x < 1)"
    by (metis less_irrefl)
  with g show ?thesis by blast
qed

section \<open>Claims about the course recommender\<close>

text \<open>
  C8. For every list of missing skills and every course catalogue, \<^verbatim>\<open>recommend_courses\<close>
  gives each course the relevance that is the number of missing skills matched against
  the course's tags (substring containment in either direction, ignoring case), leaves out
  the courses of relevance 0, ranks the others by descending relevance, keeps at most 3 of
  them, and never divides by zero: it returns a list, and for an empty list of missing
  skills the division is not reached and the list is empty.
\<close>

theorem recommend_courses_ranked:
  "\<exists>recs. recommend_courses missing available = Inr recs
     \<and> recs = take 3 (sort_key (\<lambda>x. - int (relevance_score x))
                 (map (spec_recommendation missing)
                    (filter (\<lambda>c. 0 < spec_relevance missing c) available)))
     \<and> length recs \<le> 3
     \<and> sorted_wrt (\<lambda>a b. relevance_score b \<le> relevance_score a) recs
     \<and> (\<forall>r \<in> set recs. rec_course r \<in> set available
            \<and> relevance_score r = spec_relevance missing (rec_course r)
            \<and> 0 < relevance_score r)
     \<and> (missing = [] \<longrightarrow> recs = [])"
proof -
  define pos where "pos = map (spec_recommendation missing)
                    (filter (\<lambda>c. 0 < spec_relevance missing c) available)"
  define recs where "recs = take 3 (sort_key (\<lambda>x. - int (relevance_score x)) pos)"
  have r: "recommend_courses missing available = Inr recs"
    by (simp add: recommend_courses_eq recs_def pos_def)
  have l: "length recs \<le> 3" by (simp add: recs_def)
  have s: "sorted_wrt (\<lambda>a b. relevance_score b \<le> relevance_score a) recs"
    unfolding recs_def by (intro sorted_wrt_take sorted_desc_sort_key)
  have "set recs \<subseteq> set pos"
    unfolding recs_def using set_take_subset [of 3 "sort_key (\<lambda>x. - int (relevance_score x)) pos"]
    by simp
  then have m: "\<forall>r \<in> set recs. rec_course r \<in> set available
            \<and> relevance_score r = spec_relevance missing (rec_course r)
            \<and> 0 < relevance_score r"
    by (auto simp: pos_def spec_recommendation_def)
  have e: "missing = [] \<longrightarrow> recs = []"
    by (simp add: recs_def pos_def spec_relevance_Nil)
  from r l s m e show ?thesis unfolding recs_def pos_def by blast
qed

theorem recommend_courses_ranked_witness:
  "recommend_courses [''docker''] [course_to_dict docker_course]
     = Inr [\<lparr> rec_course = course_to_dict docker_course, relevance_score = 1,
               relevance_percentage = 100 \<rparr>]
   \<and> spec_relevance [''docker''] (course_to_dict docker_course) = 1
   \<and> recommend_courses [] [course_to_dict docker_course] = Inr []"
proof -
  have h: "recommend_courses [''docker''] [course_to_dict docker_course]
     = Inr [\<lparr> rec_course = course_to_dict docker_course, relevance_score = 1,
               relevance_percentage = 100 \<rparr>]"
    by code_simp
  obtain recs where r: "recommend_courses [''docker''] [course_to_dict docker_course] = Inr recs"
      "\<forall>r \<in> set recs. rec_course r \<in> set [course_to_dict docker_course]
            \<and> relevance_score r = spec_relevance [''docker''] (rec_course r)
            \<and> 0 < relevance_score r"
    using recommend_courses_ranked [of "[''docker'']" "[course_to_dict docker_course]"] by blast
  from h r(1) have "recs = [\<lparr> rec_course = course_to_dict docker_course, relevance_score = 1,
               relevance_percentage = 100 \<rparr>]"
    by simp
  with r(2) have s: "spec_relevance [''docker''] (course_to_dict docker_course) = 1" by simp
  obtain none where "recommend_courses [] [course_to_dict docker_course] = Inr none"
      "([] :: string list) = [] \<longrightarrow> none = []"
    using recommend_courses_ranked [of "[]" "[course_to_dict docker_course]"] by blast
  then have e: "recommend_courses [] [course_to_dict docker_course] = Inr []" by simp
  from h s e show ?thesis by blast
qed

section \<open>Claims about the match history\<close>

text \<open>
  C6. The match-history store keeps at most one record per (employee, project) pair:
  from a table with that property, such as the empty table of a fresh database, two calls
  of \<^verbatim>\<open>add_match_history\<close> for the same pair leave the property in place and leave exactly
  one record for the pair; it keeps the id the first call returned, its scores and skill
  lists are those of the second call, and its timestamp is the time of the second call.
\<close>

theorem add_match_history_upsert:
  fixes db :: database and e p :: int and t1 t2 :: nat and s1 s2 pct1 pct2 ov1 ov2 :: rat
    and miss1 miss2 mat1 mat2 :: "string list"
  defines "first \<equiv> add_match_history db t1 e p s1 miss1 mat1 pct1 ov1"
  defines "second \<equiv> add_match_history (snd first) t2 e p s2 miss2 mat2 pct2 ov2"
  assumes inv: "unique_pairs db"
  shows "unique_pairs (snd first) \<and> unique_pairs (snd second)
       \<and> filter (same_pair e p) (match_history (snd second))
           = [stored_row (fst first) t2 e p s2 miss2 mat2 pct2 ov2]"
proof -
  have u1: "unique_pairs (snd first)"
    unfolding first_def using inv by (rule add_match_history_unique)
  have u2: "unique_pairs (snd second)"
    unfolding second_def using u1 by (rule add_match_history_unique)
  have r1: "filter (same_pair e p) (match_history (snd first))
              = [stored_row (fst first) t1 e p s1 miss1 mat1 pct1 ov1]"
    unfolding first_def using inv by (rule add_match_history_row)
  have "fst second = mh_id (stored_row (fst first) t1 e p s1 miss1 mat1 pct1 ov1)"
    unfolding second_def using r1 by (rule add_match_history_same_id)
  then have i: "fst second = fst first" by (simp add: stored_row_def)
  have "filter (same_pair e p) (match_history (snd second))
          = [stored_row (fst second) t2 e p s2 miss2 mat2 pct2 ov2]"
    unfolding second_def using u1 by (rule add_match_history_row)
  with i u1 u2 show ?thesis by simp
qed

theorem add_match_history_upsert_witness:
  "unique_pairs init_database
   \<and> match_history (snd (add_match_history
        (snd (add_match_history init_database 10 1 2 (8125 / 100) [''django''] [''python''] 50 (6875 / 100)))
        20 1 2 (9000 / 100) [] [''python'', ''django''] 100 94))
     = [stored_row 1 20 1 2 (9000 / 100) [] [''python'', ''django''] 100 94]"
proof -
  have h: "unique_pairs init_database" by (rule unique_pairs_init)
  have f: "fst (add_match_history init_database 10 1 2 (8125 / 100) [''django''] [''python''] 50 (6875 / 100)) = 1"
    by (simp add: add_match_history_def init_database_def)
  have a: "filter (same_pair 1 2) (match_history (snd (add_match_history
        (snd (add_match_history init_database 10 1 2 (8125 / 100) [''django''] [''python''] 50 (6875 / 100)))
        20 1 2 (9000 / 100) [] [''python'', ''django''] 100 94)))
      = match_history (snd (add_match_history
        (snd (add_match_history init_database 10 1 2 (8125 / 100) [''django''] [''python''] 50 (6875 / 100)))
        20 1 2 (9000 / 100) [] [''python'', ''django''] 100 94))"
    by (simp add: add_match_history_def init_database_def same_pair_def set_match_def)
  from add_match_history_upsert [OF h, of 10 1 2 "8125 / 100" "[''django'']" "[''python'']" 50 "6875 / 100"
         20 "9000 / 100" "[]" "[''python'', ''django'']" 100 94] f a h
  show ?thesis by simp
qed

section \<open>Claims about the match orchestrator\<close>

text \<open>
  C7. For every entity and every \<open>topK\<close>, each of the two matching operations returns a
  list (no error) that is sorted by overall score in descending order and has at most
  \<open>topK\<close> entries; a candidate of the index whose record cannot be resolved is left out
  silently: the ids of the returned matches are, up to order, the ids of the candidates
  that have a record in the store.
\<close>

theorem matches_ranked_and_bounded:
  "(\<exists>ms sys'. match_employee_to_projects cosine now sys eid k = Inr (ms, sys')
      \<and> sorted_wrt (\<lambda>a b. pm_overall_score b \<le> pm_overall_score a) ms
      \<and> length ms \<le> k
      \<and> (\<forall>e emb sys1. get_employee (sys_db sys) eid = Some e
             \<and> employee_embedding_step sys eid e = Inr (emb, sys1) \<longrightarrow>
           mset (map pm_project_id ms)
             = mset (filter (resolvable_project (sys_db sys))
                       (map sim_id (find_similar_projects cosine (sys_vs sys1) emb k)))))
   \<and> (\<exists>ms sys'. match_project_to_employees cosine sys pid k = Inr (ms, sys')
      \<and> sorted_wrt (\<lambda>a b. em_overall_score b \<le> em_overall_score a) ms
      \<and> length ms \<le> k
      \<and> (\<forall>p emb sys1. find (\<lambda>p. proj_id p = pid) (projects (sys_db sys)) = Some p
             \<and> project_embedding_step sys pid p = Inr (emb, sys1) \<longrightarrow>
           mset (map em_employee_id ms)
             = mset (filter (resolvable_employee (sys_db sys))
                       (map sim_id (find_similar_employees cosine (sys_vs sys1) emb k)))))"
  using employee_matches_ranked [of cosine now sys eid k]
    project_matches_ranked [of cosine sys pid k]
  by (rule conjI)

theorem matches_ranked_and_bounded_witness:
  "get_employee (sys_db demo) 1 = Some alice
   \<and> employee_embedding_step demo 1 alice = Inr ([1 / 2], demo)
   \<and> map sim_id (find_similar_projects demo_dist (sys_vs demo) [1 / 2] 5) = [9, 2, 3]
   \<and> map pm_project_id (fst (projr (match_employee_to_projects demo_dist 10 demo 1 5))) = [3, 2]
   \<and> map pm_overall_score (fst (projr (match_employee_to_projects demo_dist 10 demo 1 5)))
        = [76, 6733 / 100]
   \<and> length (fst (projr (match_employee_to_projects demo_dist 10 demo 1 5))) \<le> 5
   \<and> mset [3, 2] = mset (filter (resolvable_project (sys_db demo)) [9, 2, 3])
   \<and> find (\<lambda>p. proj_id p = 2) (projects (sys_db demo)) = Some web_shop
   \<and> project_embedding_step demo 2 web_shop = Inr ([3 / 5], demo)
   \<and> map sim_id (find_similar_employees demo_dist (sys_vs demo) [3 / 5] 5) = [8, 1, 4]
   \<and> map em_employee_id (fst (projr (match_project_to_employees demo_dist demo 2 5))) = [1, 4]
   \<and> length (fst (projr (match_project_to_employees demo_dist demo 2 5))) \<le> 5
   \<and> mset [1, 4] = mset (filter (resolvable_employee (sys_db demo)) [8, 1, 4])"
proof -
  have e1: "get_employee (sys_db demo) 1 = Some alice" by code_simp
  have e2: "employee_embedding_step demo 1 alice = Inr ([1 / 2], demo)" by code_simp
  have e3: "map sim_id (find_similar_projects demo_dist (sys_vs demo) [1 / 2] 5) = [9, 2, 3]"
    by code_simp
  have e4: "map pm_project_id (fst (projr (match_employee_to_projects demo_dist 10 demo 1 5))) = [3, 2]"
    by code_simp
  have e5: "map pm_overall_score (fst (projr (match_employee_to_projects demo_dist 10 demo 1 5)))
        = [76, 6733 / 100]"
    by code_simp
  have p1: "find (\<lambda>p. proj_id p = 2) (projects (sys_db demo)) = Some web_shop" by code_simp
  have p2: "project_embedding_step demo 2 web_shop = Inr ([3 / 5], demo)" by code_simp
  have p3: "map sim_id (find_similar_employees demo_dist (sys_vs demo) [3 / 5] 5) = [8, 1, 4]"
    by code_simp
  have p4: "map em_employee_id (fst (projr (match_project_to_employees demo_dist demo 2 5))) = [1, 4]"
    by code_simp
  note t = matches_ranked_and_bounded [of demo_dist 10 demo 1 5 2]
  obtain ms sys' where m: "match_employee_to_projects demo_dist 10 demo 1 5 = Inr (ms, sys')"
      "length ms \<le> 5"
      "\<forall>e emb sys1. get_employee (sys_db demo) 1 = Some e
             \<and> employee_embedding_step demo 1 e = Inr (emb, sys1) \<longrightarrow>
           mset (map pm_project_id ms)
             = mset (filter (resolvable_project (sys_db demo))
                       (map sim_id (find_similar_projects demo_dist (sys_vs sys1) emb 5)))"
    using t by blast
  have ml: "length (fst (projr (match_employee_to_projects demo_dist 10 demo 1 5))) \<le> 5"
    using m(1,2) by simp
  have "mset (map pm_project_id ms)
          = mset (filter (resolvable_project (sys_db demo))
                    (map sim_id (find_similar_projects demo_dist (sys_vs demo) [1 / 2] 5)))"
    using m(3) e1 e2 by blast
  moreover have "map pm_project_id ms = [3, 2]" using m(1) e4 by simp
  ultimately have mm: "mset [3, 2] = mset (filter (resolvable_project (sys_db demo)) [9, 2, 3])"
    by (simp only: e3)
  obtain ns sys'' where n: "match_project_to_employees demo_dist demo 2 5 = Inr (ns, sys'')"
      "length ns \<le> 5"
      "\<forall>p emb sys1. find (\<lambda>p. proj_id p = 2) (projects (sys_db demo)) = Some p
             \<and> project_embedding_step demo 2 p = Inr (emb, sys1) \<longrightarrow>
           mset (map em_employee_id ns)
             = mset (filter (resolvable_employee (sys_db demo))
                       (map sim_id (find_similar_employees demo_dist (sys_vs sys1) emb 5)))"
    using t by blast
  have nl: "length (fst (projr (match_project_to_employees demo_dist demo 2 5))) \<le> 5"
    using n(1,2) by simp
  have "mset (map em_employee_id ns)
          = mset (filter (resolvable_employee (sys_db demo))
                    (map sim_id (find_similar_employees demo_dist (sys_vs demo) [3 / 5] 5)))"
    using n(3) p1 p2 by blast
  moreover have "map em_employee_id ns = [1, 4]" using n(1) p4 by simp
  ultimately have nm: "mset [1, 4] = mset (filter (resolvable_employee (sys_db demo)) [8, 1, 4])"
    by (simp only: p3)
  from e1 e2 e3 e4 e5 ml mm p1 p2 p3 p4 nl nm show ?thesis by blast
qed

text \<open>
  C9, as the code has it. When the requested employee is not in the record store,
  \<^verbatim>\<open>match_employee_to_projects\<close> returns the empty list and changes nothing, and so does
  \<^verbatim>\<open>match_project_to_employees\<close> for a project that is not stored;
  \<^verbatim>\<open>analyze_skill_gaps\<close> returns the empty dictionary exactly when the employee is not
  stored.
\<close>

theorem absent_entity_outcome:
  "(get_employee (sys_db sys) eid = None \<longrightarrow>
      match_employee_to_projects cosine now sys eid k = Inr ([], sys))
   \<and> (find (\<lambda>p. proj_id p = pid) (projects (sys_db sys)) = None \<longrightarrow>
      match_project_to_employees cosine sys pid k = Inr ([], sys))
   \<and> (analyze_skill_gaps db eid opid = Inr (Some Empty_report) \<longleftrightarrow> get_employee db eid = None)"
  by (simp add: match_employee_to_projects_absent match_project_to_employees_absent
        analyze_skill_gaps_empty_iff)

theorem absent_entity_outcome_witness:
  "get_employee (sys_db quiet) 7 = None
   \<and> match_employee_to_projects demo_dist 10 quiet 7 5 = Inr ([], quiet)
   \<and> find (\<lambda>p. proj_id p = 9) (projects (sys_db quiet)) = None
   \<and> match_project_to_employees demo_dist quiet 9 5 = Inr ([], quiet)
   \<and> get_employee demo_db 7 = None
   \<and> analyze_skill_gaps demo_db 7 (Some 2) = Inr (Some Empty_report)"
proof -
  have a: "get_employee (sys_db quiet) 7 = None" by code_simp
  have b: "find (\<lambda>p. proj_id p = 9) (projects (sys_db quiet)) = None" by code_simp
  have c: "get_employee demo_db 7 = None" by code_simp
  from a b c absent_entity_outcome [of quiet 7 demo_dist 10 5 9 demo_db "Some 2"]
  show ?thesis by blast
qed

text \<open>
  C9 as stated asks the matching operation for an outcome that tells an absent entity from
  a present one. On the system with the empty index the call for the absent employee 7 and
  the call for the stored employee 1 return the same value.
\<close>

theorem absent_employee_indistinguishable:
  "get_employee (sys_db quiet) 7 = None
   \<and> get_employee (sys_db quiet) 1 = Some alice
   \<and> match_employee_to_projects demo_dist 10 quiet 7 5 = Inr ([], quiet)
   \<and> match_employee_to_projects demo_dist 10 quiet 1 5 = Inr ([], quiet)"
  by code_simp

text \<open>
  C10. For an employee that is stored and a project id that is not zero and belongs to no
  stored project, \<^verbatim>\<open>analyze_skill_gaps\<close> returns no report: the call falls off the end of
  the function and yields \<^verbatim>\<open>None\<close>, neither a project report nor the general report nor
  an error.
\<close>

theorem analyze_skill_gaps_unknown_project:
  assumes "get_employee db eid = Some e"
    and "pid \<noteq> 0"
    and "find (\<lambda>p. proj_id p = pid) (projects db) = None"
  shows "analyze_skill_gaps db eid (Some pid) = Inr None"
  using assms
  by (simp add: analyze_skill_gaps_def project_gap_report_def get_all_projects_def)

theorem analyze_skill_gaps_unknown_project_witness:
  "get_employee demo_db 1 = Some alice
   \<and> (5 :: int) \<noteq> 0
   \<and> find (\<lambda>p. proj_id p = 5) (projects demo_db) = None
   \<and> analyze_skill_gaps demo_db 1 (Some 5) = Inr None"
proof -
  have a: "get_employee demo_db 1 = Some alice" by code_simp
  have b: "(5 :: int) \<noteq> 0" by simp
  have c: "find (\<lambda>p. proj_id p = 5) (projects demo_db) = None" by code_simp
  from a b c analyze_skill_gaps_unknown_project [OF a b c] show ?thesis by blast
qed

text \<open>
  C5 asks that both directions persist every enriched match as a match record. On the
  example system \<^verbatim>\<open>match_project_to_employees\<close> for project 2 returns two enriched
  matches and leaves the system as it was, with an empty match history, while
  \<^verbatim>\<open>match_employee_to_projects\<close> for employee 1 stores one record per returned match.
\<close>

theorem project_matches_not_persisted:
  "match_project_to_employees demo_dist demo 2 5 =
     Inr ([\<lparr> em_employee_id = 1, em_name = ''Alice'', em_skills = [''Python'', ''React''],
              em_preferences = [''remote''], em_similarity_score = 90,
              em_skill_match_percentage = 3333 / 100, em_matched_skills = [''python''],
              em_missing_skills = [''django'', ''docker''], em_overall_score = 6733 / 100 \<rparr>,
            \<lparr> em_employee_id = 4, em_name = ''Bob'', em_skills = [''docker'', ''django''],
              em_preferences = [], em_similarity_score = 65,
              em_skill_match_percentage = 6667 / 100, em_matched_skills = [''django'', ''docker''],
              em_missing_skills = [''python''], em_overall_score = 6567 / 100 \<rparr>],
          demo)
   \<and> match_history (sys_db demo) = []
   \<and> match_history (sys_db (snd (projr (match_employee_to_projects demo_dist 10 demo 1 5))))
       = [stored_row 1 10 1 2 90 [''django'', ''docker''] [''python''] (3333 / 100) (6733 / 100),
          stored_row 2 10 1 3 60 [] [''python''] 100 76]"
  by code_simp

end
